theory Spec2Isabelle
  imports Main
begin

section \<open>The HTTP instrument of the OpenWPM web extension\<close>

text \<open>
  The class \<open>HttpInstrument\<close> subscribes to the four \<open>webRequest\<close> channels of the
  browser, correlates the events of one request through two maps of pending buffers and
  hands request, response and redirect records to a data receiver (the sink).

  The embedding is a state-passing one. The state holds the fields of the class, the
  listeners the browser has registered, and the trace of the calls made to the
  collaborators of the class (sink, buffers, parser, tab lookup, browser). An
  asynchronous handler is run to its end in one step: what each \<open>await\<close> of the source
  yields is an argument of the handler, and a promise that rejects or never settles is a
  branch of the model. The calls one handler makes appear in the trace in the order the
  source makes them; calls of other handlers that the event loop may run at an
  \<open>await\<close> are not interleaved. The class \<open>JavascriptInstrument\<close> of the second
  source file, a stateless forwarder of messages to the sink, is not modelled.
\<close>

subsection \<open>Strings\<close>

text \<open>\<open>String.prototype.indexOf\<close>: the first position of \<open>sub\<close> in \<open>s\<close>, or \<open>-1\<close>.\<close>

fun starts_with :: "string \<Rightarrow> string \<Rightarrow> bool" where
  "starts_with [] s = True"
| "starts_with (c # cs) [] = False"
| "starts_with (c # cs) (d # ds) = (c = d \<and> starts_with cs ds)"

fun indexOf_from :: "string \<Rightarrow> string \<Rightarrow> int \<Rightarrow> int" where
  "indexOf_from [] sub i = (if sub = [] then i else - 1)"
| "indexOf_from (c # cs) sub i =
     (if starts_with sub (c # cs) then i else indexOf_from cs sub (i + 1))"

definition indexOf :: "string \<Rightarrow> string \<Rightarrow> int" where
  "indexOf s sub = indexOf_from s sub 0"

text \<open>\<open>String.prototype.toLowerCase\<close> on the ASCII letters.\<close>

definition toLowerCase_char :: "char \<Rightarrow> char" where
  "toLowerCase_char c =
     (let n = (of_char c :: nat) in if 65 \<le> n \<and> n \<le> 90 then char_of (n + 32) else c)"

definition toLowerCase :: "string \<Rightarrow> string" where
  "toLowerCase s = map toLowerCase_char s"

subsection \<open>Event details\<close>

type_synonym request_id = int
type_synonym crawl_id = int
type_synonym resource_type = string
type_synonym http_header = "string \<times> string"

text \<open>
  The fields the instrument reads from the details object of a \<open>webRequest\<close> event.
  An optional field of the browser's object is an \<open>option\<close>; \<open>None\<close> is
  \<open>undefined\<close>. The fields \<open>type\<close> and \<open>method\<close> of the source are \<open>resourceType\<close> and
  \<open>http_method\<close> here.
\<close>

record details =
  requestId :: request_id
  url :: string
  http_method :: string
  resourceType :: resource_type
  timeStamp :: int
  tabId :: int
  frameId :: int
  parentFrameId :: int
  originUrl :: "string option"
  documentUrl :: "string option"
  frameAncestors :: "(string \<times> int) list option"

record request_body =
  rb_error :: "string option"
  rb_formData :: "(string \<times> string list) list option"
  rb_raw :: "string list option"

record before_request_details = details +
  requestBody :: "request_body option"

record before_send_headers_details = details +
  requestHeaders :: "http_header list option"

record before_redirect_details = details +
  redirectUrl :: string

record completed_details = details +
  fromCache :: bool
  statusCode :: int
  statusLine :: string
  responseHeaders :: "http_header list option"

text \<open>
  \<open>BlockingResponse\<close>: what a blocking listener may answer to cancel, redirect or
  rewrite a request. The object \<open>{}\<close> sets none of its fields.
\<close>

record blocking_response =
  br_cancel :: "bool option"
  br_redirectUrl :: "string option"
  br_requestHeaders :: "http_header list option"
  br_responseHeaders :: "http_header list option"
  br_upgradeToSecure :: "bool option"

definition empty_blocking_response :: blocking_response where
  "empty_blocking_response =
     \<lparr>br_cancel = None, br_redirectUrl = None, br_requestHeaders = None,
      br_responseHeaders = None, br_upgradeToSecure = None\<rparr>"

subsection \<open>Records handed to the sink\<close>

text \<open>
  The rows of the tables \<open>http_requests\<close>, \<open>http_responses\<close> and \<open>http_redirects\<close>.
  Fields that several tables share carry the prefix \<open>req_\<close>, \<open>resp_\<close> or \<open>redir_\<close>
  (\<open>req_url\<close> is \<open>update.url\<close> of the request handler). A field the source assigns on
  some paths only (\<open>post_body\<close>, \<open>content_hash\<close>) is an \<open>option\<close>.
\<close>

record http_request =
  req_crawl_id :: crawl_id
  req_request_id :: request_id
  req_url :: string
  req_method :: string
  req_time_stamp :: string
  post_body :: "string option"
  req_headers :: string
  is_XHR :: int
  is_full_page :: int
  is_frame_load :: int
  triggering_origin :: string
  loading_origin :: string
  loading_href :: string
  resource_type :: resource_type
  top_level_url :: string
  parent_frame_id :: int
  frame_ancestors :: string

record http_response =
  resp_crawl_id :: crawl_id
  resp_request_id :: request_id
  is_cached :: int
  resp_url :: string
  resp_method :: string
  response_status :: int
  response_status_text :: string
  resp_time_stamp :: string
  resp_headers :: string
  location :: string
  content_hash :: "string option"

record http_redirect =
  redir_crawl_id :: crawl_id
  old_request_id :: request_id
  new_request_id :: "request_id option"
  redir_time_stamp :: string

datatype sink_record =
  RequestRec http_request
| ResponseRec http_response
| RedirectRec http_redirect

subsection \<open>Collaborators that are not part of the class\<close>

text \<open>An \<open>Error\<close> object, as the \<open>catch\<close> block of \<open>logWithResponseBody\<close> reads it.\<close>

record js_error =
  err_name :: string
  err_message :: string
  err_stack :: string

text \<open>What an awaited promise does: it fulfils, it rejects, or it never settles.\<close>

datatype 'a settled = Fulfilled 'a | Rejected js_error | Unsettled

text \<open>How the promise of an \<open>async\<close> handler ends.\<close>

datatype completion = Returned | Threw | Suspended

record tab =
  tab_url :: "string option"

record parsed_post_request =
  post_headers :: "(string \<times> string) list option"
  parsed_post_body :: "string option"

text \<open>
  The helpers the class imports or takes from the JavaScript runtime, as parameters:
  \<open>escapeString\<close> and \<open>boolToInt\<close> of \<open>lib/string-utils\<close>,
  \<open>new Date(t).toISOString()\<close>, \<open>JSON.stringify\<close> at the two types it is used at,
  \<open>new URL(u).origin\<close> (\<open>None\<close> when the constructor throws), the method
  \<open>parsePostRequest\<close> of \<open>HttpPostParser\<close> (\<open>post_headers\<close> lists the recovered
  headers in the order \<open>for ... in\<close> enumerates them), and the \<open>TypeError\<close> the engine
  throws when a property of \<open>undefined\<close> is read.
\<close>

record lib =
  escapeString :: "string option \<Rightarrow> string"
  boolToInt :: "bool \<Rightarrow> int"
  toISOString :: "int \<Rightarrow> string"
  stringify_headers :: "string list list \<Rightarrow> string"
  stringify_frameAncestors :: "(string \<times> int) list option \<Rightarrow> string option"
  URL_origin :: "string \<Rightarrow> string option"
  parsePostRequest :: "before_request_details \<Rightarrow> string \<Rightarrow> parsed_post_request"
  undefined_TypeError :: js_error

subsection \<open>The pending buffers\<close>

record pending_request =
  onBeforeRequestEventDetails :: "before_request_details option"
  onBeforeSendHeadersEventDetails :: "before_send_headers_details option"

datatype response_body_listener = ResponseBodyListener request_id

record pending_response =
  resp_onBeforeRequestEventDetails :: "before_request_details option"
  onCompletedEventDetails :: "completed_details option"
  responseBodyListener :: "response_body_listener option"

subsection \<open>The state\<close>

datatype channel = OnBeforeRequest | OnBeforeSendHeaders | OnBeforeRedirect | OnCompleted

text \<open>
  A listener is a function object: \<open>run\<close> creates four closures over its arguments.
  \<open>fn_id\<close> is the identity of the object, which \<open>removeListener\<close> compares.
\<close>

record closure =
  fn_id :: nat
  fn_channel :: channel
  fn_crawlID :: crawl_id
  fn_saveJavascript :: bool
  fn_saveAllContent :: bool

record request_filter =
  urls :: "string list"
  types :: "resource_type list"

record registration =
  reg_fn :: closure
  reg_filter :: request_filter
  reg_extraInfoSpec :: "string list"

text \<open>The calls the class makes to its collaborators, in the order it makes them.\<close>

datatype call =
  LogError string
| SaveRecord string sink_record
| SaveContent string string
| ResolvedWithinTimeout request_id nat
| ParsePostRequest request_id string
| TabsGet int
| NewResponseBodyListener request_id
| AddListener channel closure
| RemoveListener channel closure

record state =
  pendingRequests :: "request_id \<rightharpoonup> pending_request"
  pendingResponses :: "request_id \<rightharpoonup> pending_response"
  onBeforeRequestListener_slot :: "closure option"
  onBeforeSendHeadersListener_slot :: "closure option"
  onBeforeRedirectListener_slot :: "closure option"
  onCompletedListener_slot :: "closure option"
  listeners :: "channel \<Rightarrow> registration list"
  next_fn :: nat
  calls :: "call list"

text \<open>The state after \<open>new HttpInstrument(dataReceiver)\<close> in a browser with no listener.\<close>

definition new_HttpInstrument :: state where
  "new_HttpInstrument =
     \<lparr>pendingRequests = Map.empty, pendingResponses = Map.empty,
      onBeforeRequestListener_slot = None, onBeforeSendHeadersListener_slot = None,
      onBeforeRedirectListener_slot = None, onCompletedListener_slot = None,
      listeners = (\<lambda>ch. []), next_fn = 0, calls = []\<rparr>"

subsection \<open>The sink and the browser's event targets\<close>

definition emit :: "call \<Rightarrow> state \<Rightarrow> state" where
  "emit c s = s\<lparr>calls := calls s @ [c]\<rparr>"

text \<open>
  The three operations of the data receiver. The class consumes no return value of
  theirs: a call is recorded and changes nothing else.
\<close>

definition logError :: "string \<Rightarrow> state \<Rightarrow> state" where
  "logError msg s = emit (LogError msg) s"

definition saveRecord :: "string \<Rightarrow> sink_record \<Rightarrow> state \<Rightarrow> state" where
  "saveRecord table r s = emit (SaveRecord table r) s"

definition saveContent :: "string \<Rightarrow> string \<Rightarrow> state \<Rightarrow> state" where
  "saveContent content hash s = emit (SaveContent content hash) s"

text \<open>
  \<open>addListener\<close> and \<open>removeListener\<close> of a \<open>webRequest\<close> event: the browser keeps
  the listeners of a channel in the order they were added, and removing a function that
  is not registered changes nothing.
\<close>

definition addListener ::
  "channel \<Rightarrow> closure \<Rightarrow> request_filter \<Rightarrow> string list \<Rightarrow> state \<Rightarrow> state" where
  "addListener ch f flt spec s =
     emit (AddListener ch f)
       (s\<lparr>listeners := (listeners s)
            (ch := listeners s ch @ [\<lparr>reg_fn = f, reg_filter = flt, reg_extraInfoSpec = spec\<rparr>])\<rparr>)"

definition removeListener :: "channel \<Rightarrow> closure \<Rightarrow> state \<Rightarrow> state" where
  "removeListener ch f s =
     emit (RemoveListener ch f)
       (s\<lparr>listeners := (listeners s) (ch := filter (\<lambda>r. reg_fn r \<noteq> f) (listeners s ch))\<rparr>)"

subsection \<open>Operations of the pending buffers\<close>

text \<open>
  Modelled from the spec: the classes \<open>PendingRequest\<close> and \<open>PendingResponse\<close> of
  \<open>lib/pending-request\<close> and \<open>lib/pending-response\<close> are not among the source files.
  A buffer is created with every slot empty; a resolve operation stores the fragment in
  its slot (a later resolution overwrites an earlier one); \<open>resolvedWithinTimeout ms\<close>
  tells whether the body fragment arrived before the deadline. \<open>arrival\<close> is the
  future of the wait: \<open>Some (t, d)\<close> when the pre-request event of the transaction is
  delivered \<open>t\<close> milliseconds after the wait began, carrying \<open>d\<close>, and \<open>None\<close> when it
  never is. \<open>addResponseResponseBodyListener\<close> constructs a Body Capture Listener for
  the transaction and stores it in the buffer.
\<close>

definition new_PendingRequest :: pending_request where
  "new_PendingRequest =
     \<lparr>onBeforeRequestEventDetails = None, onBeforeSendHeadersEventDetails = None\<rparr>"

definition new_PendingResponse :: pending_response where
  "new_PendingResponse =
     \<lparr>resp_onBeforeRequestEventDetails = None, onCompletedEventDetails = None,
      responseBodyListener = None\<rparr>"

definition resolvedWithinTimeout ::
  "nat \<Rightarrow> (nat \<times> before_request_details) option \<Rightarrow> pending_request \<Rightarrow> bool" where
  "resolvedWithinTimeout ms arrival pr =
     (case onBeforeRequestEventDetails pr of
        Some d \<Rightarrow> True
      | None \<Rightarrow> (case arrival of Some (t, d) \<Rightarrow> t < ms | None \<Rightarrow> False))"

definition await_onBeforeRequestEventDetails ::
  "(nat \<times> before_request_details) option \<Rightarrow> pending_request \<Rightarrow> before_request_details option" where
  "await_onBeforeRequestEventDetails arrival pr =
     (case onBeforeRequestEventDetails pr of
        Some d \<Rightarrow> Some d
      | None \<Rightarrow> map_option snd arrival)"

definition modify_pendingRequest ::
  "request_id \<Rightarrow> (pending_request \<Rightarrow> pending_request) \<Rightarrow> state \<Rightarrow> state" where
  "modify_pendingRequest rid f s =
     s\<lparr>pendingRequests := (pendingRequests s) (rid := map_option f (pendingRequests s rid))\<rparr>"

definition modify_pendingResponse ::
  "request_id \<Rightarrow> (pending_response \<Rightarrow> pending_response) \<Rightarrow> state \<Rightarrow> state" where
  "modify_pendingResponse rid f s =
     s\<lparr>pendingResponses := (pendingResponses s) (rid := map_option f (pendingResponses s rid))\<rparr>"

definition req_resolveBeforeRequestEventDetails ::
  "before_request_details \<Rightarrow> request_id \<Rightarrow> state \<Rightarrow> state" where
  "req_resolveBeforeRequestEventDetails d rid s =
     modify_pendingRequest rid (\<lambda>pr. pr\<lparr>onBeforeRequestEventDetails := Some d\<rparr>) s"

definition req_resolveOnBeforeSendHeadersEventDetails ::
  "before_send_headers_details \<Rightarrow> request_id \<Rightarrow> state \<Rightarrow> state" where
  "req_resolveOnBeforeSendHeadersEventDetails d rid s =
     modify_pendingRequest rid (\<lambda>pr. pr\<lparr>onBeforeSendHeadersEventDetails := Some d\<rparr>) s"

definition resp_resolveBeforeRequestEventDetails ::
  "before_request_details \<Rightarrow> request_id \<Rightarrow> state \<Rightarrow> state" where
  "resp_resolveBeforeRequestEventDetails d rid s =
     modify_pendingResponse rid (\<lambda>pr. pr\<lparr>resp_onBeforeRequestEventDetails := Some d\<rparr>) s"

definition resp_resolveOnCompletedEventDetails ::
  "completed_details \<Rightarrow> request_id \<Rightarrow> state \<Rightarrow> state" where
  "resp_resolveOnCompletedEventDetails d rid s =
     modify_pendingResponse rid (\<lambda>pr. pr\<lparr>onCompletedEventDetails := Some d\<rparr>) s"

definition addResponseResponseBodyListener ::
  "before_request_details \<Rightarrow> request_id \<Rightarrow> state \<Rightarrow> state" where
  "addResponseResponseBodyListener d rid s =
     emit (NewResponseBodyListener (requestId d))
       (modify_pendingResponse rid
          (\<lambda>pr. pr\<lparr>responseBodyListener := Some (ResponseBodyListener (requestId d))\<rparr>) s)"

subsection \<open>The class \<open>HttpInstrument\<close>\<close>

text \<open>
  \<open>getPendingRequest\<close> and \<open>getPendingResponse\<close> create the buffer of a transaction
  on first reference. They return the buffer as it is at the call; the methods above
  reach the object through its key, which the class never rebinds.
\<close>

definition getPendingRequest :: "request_id \<Rightarrow> state \<Rightarrow> pending_request \<times> state" where
  "getPendingRequest rid s =
     (case pendingRequests s rid of
        None \<Rightarrow>
          (new_PendingRequest,
           s\<lparr>pendingRequests := (pendingRequests s) (rid \<mapsto> new_PendingRequest)\<rparr>)
      | Some pr \<Rightarrow> (pr, s))"

definition getPendingResponse :: "request_id \<Rightarrow> state \<Rightarrow> pending_response \<times> state" where
  "getPendingResponse rid s =
     (case pendingResponses s rid of
        None \<Rightarrow>
          (new_PendingResponse,
           s\<lparr>pendingResponses := (pendingResponses s) (rid \<mapsto> new_PendingResponse)\<rparr>)
      | Some pr \<Rightarrow> (pr, s))"

definition requestStemsFromExtension :: "'a details_scheme \<Rightarrow> bool" where
  "requestStemsFromExtension d =
     (case originUrl d of
        None \<Rightarrow> False
      | Some u \<Rightarrow> u \<noteq> [] \<and> indexOf u ''moz-extension://'' > - 1)"

definition isJS :: "resource_type \<Rightarrow> bool" where
  "isJS rt = (rt = ''script'')"

definition allTypes :: "resource_type list" where
  "allTypes =
     [''beacon'', ''csp_report'', ''font'', ''image'', ''imageset'', ''main_frame'',
      ''media'', ''object'', ''object_subrequest'', ''ping'', ''script'', ''stylesheet'',
      ''sub_frame'', ''web_manifest'', ''websocket'', ''xbl'', ''xml_dtd'',
      ''xmlhttprequest'', ''xslt'', ''other'']"

definition mk_closure :: "nat \<Rightarrow> channel \<Rightarrow> crawl_id \<Rightarrow> bool \<Rightarrow> bool \<Rightarrow> closure" where
  "mk_closure n ch crawlID saveJavascript saveAllContent =
     \<lparr>fn_id = n, fn_channel = ch, fn_crawlID = crawlID,
      fn_saveJavascript = saveJavascript, fn_saveAllContent = saveAllContent\<rparr>"

definition run :: "crawl_id \<Rightarrow> bool \<Rightarrow> bool \<Rightarrow> state \<Rightarrow> state" where
  "run crawlID saveJavascript saveAllContent s =
     (let flt = \<lparr>urls = [''<all_urls>''], types = allTypes\<rparr>;
          n = next_fn s;
          f1 = mk_closure n OnBeforeRequest crawlID saveJavascript saveAllContent;
          s1 = addListener OnBeforeRequest f1 flt
                 (if saveJavascript \<or> saveAllContent
                  then [''requestBody'', ''blocking''] else [''requestBody''])
                 (s\<lparr>onBeforeRequestListener_slot := Some f1\<rparr>);
          f2 = mk_closure (n + 1) OnBeforeSendHeaders crawlID saveJavascript saveAllContent;
          s2 = addListener OnBeforeSendHeaders f2 flt [''requestHeaders'']
                 (s1\<lparr>onBeforeSendHeadersListener_slot := Some f2\<rparr>);
          f3 = mk_closure (n + 2) OnBeforeRedirect crawlID saveJavascript saveAllContent;
          s3 = addListener OnBeforeRedirect f3 flt [''responseHeaders'']
                 (s2\<lparr>onBeforeRedirectListener_slot := Some f3\<rparr>);
          f4 = mk_closure (n + 3) OnCompleted crawlID saveJavascript saveAllContent;
          s4 = addListener OnCompleted f4 flt [''responseHeaders'']
                 (s3\<lparr>onCompletedListener_slot := Some f4\<rparr>)
      in s4\<lparr>next_fn := n + 4\<rparr>)"

definition cleanup :: "state \<Rightarrow> state" where
  "cleanup s =
     (let s1 = (case onBeforeRequestListener_slot s of
                  Some f \<Rightarrow> removeListener OnBeforeRequest f s | None \<Rightarrow> s);
          s2 = (case onBeforeSendHeadersListener_slot s1 of
                  Some f \<Rightarrow> removeListener OnBeforeSendHeaders f s1 | None \<Rightarrow> s1);
          s3 = (case onBeforeRedirectListener_slot s2 of
                  Some f \<Rightarrow> removeListener OnBeforeRedirect f s2 | None \<Rightarrow> s2)
      in (case onCompletedListener_slot s3 of
            Some f \<Rightarrow> removeListener OnCompleted f s3 | None \<Rightarrow> s3))"

subsection \<open>The pre-request listener\<close>

definition onBeforeRequestListener ::
  "bool \<Rightarrow> bool \<Rightarrow> before_request_details \<Rightarrow> state \<Rightarrow> blocking_response \<times> state" where
  "onBeforeRequestListener saveJavascript saveAllContent d s =
     (let blockingResponseThatDoesNothing = empty_blocking_response
      in if requestStemsFromExtension d then (blockingResponseThatDoesNothing, s)
         else
           (let (pendingRequest, s1) = getPendingRequest (requestId d) s;
                s2 = req_resolveBeforeRequestEventDetails d (requestId d) s1;
                (pendingResponse, s3) = getPendingResponse (requestId d) s2;
                s4 = resp_resolveBeforeRequestEventDetails d (requestId d) s3;
                s5 = (if saveAllContent
                      then addResponseResponseBodyListener d (requestId d) s4
                      else if saveJavascript \<and> isJS (resourceType d)
                      then addResponseResponseBodyListener d (requestId d) s4
                      else s4)
            in (blockingResponseThatDoesNothing, s5)))"

subsection \<open>The request handler\<close>

fun requestHeaders_loop ::
  "lib \<Rightarrow> http_header list \<Rightarrow> string list list \<times> string \<times> bool
     \<Rightarrow> string list list \<times> string \<times> bool" where
  "requestHeaders_loop L [] acc = acc"
| "requestHeaders_loop L ((name, val) # rest) (headers, encodingType, isOcsp) =
     (let header_pair = [escapeString L (Some name), escapeString L (Some val)];
          headers' = headers @ [header_pair]
      in if name = ''Content-Type''
         then requestHeaders_loop L rest
                (headers', val,
                 (if indexOf val ''application/ocsp-request'' \<noteq> - 1 then True else isOcsp))
         else requestHeaders_loop L rest (headers', encodingType, isOcsp))"

definition scan_requestHeaders ::
  "lib \<Rightarrow> before_send_headers_details \<Rightarrow> string list list \<times> string \<times> bool" where
  "scan_requestHeaders L d =
     (case requestHeaders d of
        None \<Rightarrow> ([], [], False)
      | Some hs \<Rightarrow> requestHeaders_loop L hs ([], [], False))"

definition contentHeaders :: "string list" where
  "contentHeaders = [''Content-Type'', ''Content-Disposition'', ''Content-Length'']"

fun post_headers_loop ::
  "lib \<Rightarrow> (string \<times> string) list \<Rightarrow> string list list \<Rightarrow> string list list" where
  "post_headers_loop L [] headers = headers"
| "post_headers_loop L ((name, val) # rest) headers =
     (if name \<in> set contentHeaders
      then post_headers_loop L rest
             (headers @ [[escapeString L (Some name), escapeString L (Some val)]])
      else post_headers_loop L rest headers)"

text \<open>
  The block guarded by \<open>requestMethod === "POST" && !isOcsp\<close>: the state after it and,
  unless the handler is left suspended, the header list and the \<open>post_body\<close> of the
  record.
\<close>

definition post_stage ::
  "lib \<Rightarrow> before_send_headers_details \<Rightarrow> (nat \<times> before_request_details) option
     \<Rightarrow> string list list \<Rightarrow> string \<Rightarrow> state
     \<Rightarrow> state \<times> (string list list \<times> string option) option" where
  "post_stage L d arrival headers encodingType s =
     (let (pendingRequest, s1) = getPendingRequest (requestId d) s;
          s2 = emit (ResolvedWithinTimeout (requestId d) 1000) s1;
          resolved = resolvedWithinTimeout 1000 arrival pendingRequest
      in if \<not> resolved
         then (logError ''Pending request timed out waiting for data from both onBeforeRequest and onBeforeSendHeaders events'' s2,
               Some (headers, None))
         else
           (case await_onBeforeRequestEventDetails arrival pendingRequest of
              None \<Rightarrow> (s2, None)
            | Some onBeforeRequestEventDetails' \<Rightarrow>
                (case requestBody onBeforeRequestEventDetails' of
                   None \<Rightarrow> (s2, Some (headers, None))
                 | Some rb \<Rightarrow>
                     (let postObj = parsePostRequest L onBeforeRequestEventDetails' encodingType;
                          s3 = emit (ParsePostRequest (requestId onBeforeRequestEventDetails')
                                       encodingType) s2;
                          headers' = (case post_headers postObj of
                                        None \<Rightarrow> headers
                                      | Some ph \<Rightarrow> post_headers_loop L ph headers)
                      in (s3, Some (headers', parsed_post_body postObj))))))"

text \<open>
  \<open>new URL(u).origin\<close> under the guard \<open>if (u)\<close>: \<open>None\<close> when the constructor
  throws, \<open>Some None\<close> when the variable stays \<open>undefined\<close>.
\<close>

definition parse_origin :: "lib \<Rightarrow> string option \<Rightarrow> string option option" where
  "parse_origin L u =
     (case u of
        None \<Rightarrow> Some None
      | Some v \<Rightarrow>
          if v = [] then Some None
          else (case URL_origin L v of None \<Rightarrow> None | Some org \<Rightarrow> Some (Some org)))"

definition request_update ::
  "lib \<Rightarrow> before_send_headers_details \<Rightarrow> crawl_id \<Rightarrow> string list list \<Rightarrow> string option
     \<Rightarrow> string option \<Rightarrow> string option \<Rightarrow> tab \<Rightarrow> http_request" where
  "request_update L d crawlID headers body triggeringOrigin loadingOrigin t =
     \<lparr>req_crawl_id = crawlID,
      req_request_id = requestId d,
      req_url = escapeString L (Some (url d)),
      req_method = escapeString L (Some (http_method d)),
      req_time_stamp = toISOString L (timeStamp d),
      post_body = body,
      req_headers = stringify_headers L headers,
      is_XHR = boolToInt L (resourceType d = ''xmlhttprequest''),
      is_full_page = boolToInt L (frameId d = 0),
      is_frame_load = boolToInt L (resourceType d = ''sub_frame''),
      triggering_origin = escapeString L triggeringOrigin,
      loading_origin = escapeString L loadingOrigin,
      loading_href = escapeString L (documentUrl d),
      resource_type = resourceType d,
      top_level_url = escapeString L (tab_url t),
      parent_frame_id = parentFrameId d,
      frame_ancestors = escapeString L (stringify_frameAncestors L (frameAncestors d))\<rparr>"

text \<open>The handler from \<open>update.headers = JSON.stringify(headers)\<close> to its end.\<close>

definition finish_request ::
  "lib \<Rightarrow> before_send_headers_details \<Rightarrow> crawl_id \<Rightarrow> string list list \<Rightarrow> string option
     \<Rightarrow> tab settled \<Rightarrow> state \<Rightarrow> completion \<times> state" where
  "finish_request L d crawlID headers body tabs_get s =
     (case parse_origin L (originUrl d) of
        None \<Rightarrow> (Threw, s)
      | Some triggeringOrigin \<Rightarrow>
          (case parse_origin L (documentUrl d) of
             None \<Rightarrow> (Threw, s)
           | Some loadingOrigin \<Rightarrow>
               (let s1 = emit (TabsGet (tabId d)) s
                in case tabs_get of
                     Rejected e \<Rightarrow> (Threw, s1)
                   | Unsettled \<Rightarrow> (Suspended, s1)
                   | Fulfilled t \<Rightarrow>
                       (Returned,
                        saveRecord ''http_requests''
                          (RequestRec (request_update L d crawlID headers body
                             triggeringOrigin loadingOrigin t)) s1))))"

definition onBeforeSendHeadersHandler ::
  "lib \<Rightarrow> before_send_headers_details \<Rightarrow> crawl_id \<Rightarrow> (nat \<times> before_request_details) option
     \<Rightarrow> tab settled \<Rightarrow> state \<Rightarrow> completion \<times> state" where
  "onBeforeSendHeadersHandler L d crawlID arrival tabs_get s =
     (let requestMethod = http_method d;
          (headers, encodingType, isOcsp) = scan_requestHeaders L d
      in if requestMethod = ''POST'' \<and> \<not> isOcsp
         then (case post_stage L d arrival headers encodingType s of
                 (s1, None) \<Rightarrow> (Suspended, s1)
               | (s1, Some (headers', body)) \<Rightarrow>
                   finish_request L d crawlID headers' body tabs_get s1)
         else finish_request L d crawlID headers None tabs_get s)"

definition onBeforeSendHeadersListener ::
  "lib \<Rightarrow> crawl_id \<Rightarrow> before_send_headers_details \<Rightarrow> (nat \<times> before_request_details) option
     \<Rightarrow> tab settled \<Rightarrow> state \<Rightarrow> state" where
  "onBeforeSendHeadersListener L crawlID d arrival tabs_get s =
     (if requestStemsFromExtension d then s
      else
        (let (pendingRequest, s1) = getPendingRequest (requestId d) s;
             s2 = req_resolveOnBeforeSendHeadersEventDetails d (requestId d) s1
         in snd (onBeforeSendHeadersHandler L d crawlID arrival tabs_get s2)))"

subsection \<open>The redirect handler\<close>

definition onBeforeRedirectHandler ::
  "lib \<Rightarrow> before_redirect_details \<Rightarrow> crawl_id \<Rightarrow> state \<Rightarrow> state" where
  "onBeforeRedirectHandler L d crawlID s =
     (let httpRedirect =
            \<lparr>redir_crawl_id = crawlID,
             old_request_id = requestId d,
             new_request_id = None,
             redir_time_stamp = toISOString L (timeStamp d)\<rparr>
      in saveRecord ''http_redirects'' (RedirectRec httpRedirect) s)"

definition onBeforeRedirectListener ::
  "lib \<Rightarrow> crawl_id \<Rightarrow> before_redirect_details \<Rightarrow> state \<Rightarrow> state" where
  "onBeforeRedirectListener L crawlID d s =
     (if requestStemsFromExtension d then s else onBeforeRedirectHandler L d crawlID s)"

subsection \<open>The response handler\<close>

definition unable_message :: "js_error \<Rightarrow> string" where
  "unable_message err =
     ''Unable to retrieve response body.'' @
     ''Likely caused by a programming error. Error Message:'' @
     err_name err @ err_message err @ [CHR 0x0A] @ err_stack err"

text \<open>
  \<open>body\<close> and \<open>hash\<close> are what the promises of \<open>getResponseBody()\<close> and
  \<open>getContentHash()\<close> do when the buffer holds a listener. When it holds none, the
  call of a method of \<open>undefined\<close> throws inside the \<open>try\<close>.
\<close>

definition logWithResponseBody ::
  "lib \<Rightarrow> 'a details_scheme \<Rightarrow> http_response \<Rightarrow> string settled \<Rightarrow> string settled
     \<Rightarrow> state \<Rightarrow> completion \<times> state" where
  "logWithResponseBody L d update body hash s =
     (let (pendingResponse, s1) = getPendingResponse (requestId d) s;
          catch = (\<lambda>err.
            (Returned,
             saveRecord ''http_responses''
               (ResponseRec (update\<lparr>content_hash := Some ''<error>''\<rparr>))
               (logError (unable_message err) s1)))
      in case responseBodyListener pendingResponse of
           None \<Rightarrow> catch (undefined_TypeError L)
         | Some responseBodyListener' \<Rightarrow>
             (case body of
                Rejected err \<Rightarrow> catch err
              | Unsettled \<Rightarrow> (Suspended, s1)
              | Fulfilled respBody \<Rightarrow>
                  (case hash of
                     Rejected err \<Rightarrow> catch err
                   | Unsettled \<Rightarrow> (Suspended, s1)
                   | Fulfilled contentHash \<Rightarrow>
                       (Returned,
                        saveRecord ''http_responses'' (ResponseRec update)
                          (saveContent (escapeString L (Some respBody))
                             (escapeString L (Some contentHash)) s1)))))"

fun responseHeaders_loop ::
  "lib \<Rightarrow> http_header list \<Rightarrow> string list list \<times> string \<Rightarrow> string list list \<times> string" where
  "responseHeaders_loop L [] acc = acc"
| "responseHeaders_loop L ((name, val) # rest) (headers, loc) =
     (let header_pair = [escapeString L (Some name), escapeString L (Some val)];
          headers' = headers @ [header_pair]
      in if toLowerCase name = ''location''
         then responseHeaders_loop L rest (headers', val)
         else responseHeaders_loop L rest (headers', loc))"

definition response_update :: "lib \<Rightarrow> completed_details \<Rightarrow> crawl_id \<Rightarrow> http_response" where
  "response_update L d crawlID =
     (let (headers, loc) =
            (case responseHeaders d of
               None \<Rightarrow> ([], [])
             | Some hs \<Rightarrow> responseHeaders_loop L hs ([], []))
      in \<lparr>resp_crawl_id = crawlID,
          resp_request_id = requestId d,
          is_cached = boolToInt L (fromCache d),
          resp_url = escapeString L (Some (url d)),
          resp_method = escapeString L (Some (http_method d)),
          response_status = statusCode d,
          response_status_text = escapeString L (Some (statusLine d)),
          resp_time_stamp = toISOString L (timeStamp d),
          resp_headers = stringify_headers L headers,
          location = escapeString L (Some loc),
          content_hash = None\<rparr>)"

definition onCompletedHandler ::
  "lib \<Rightarrow> completed_details \<Rightarrow> crawl_id \<Rightarrow> bool \<Rightarrow> bool \<Rightarrow> string settled \<Rightarrow> string settled
     \<Rightarrow> state \<Rightarrow> completion \<times> state" where
  "onCompletedHandler L d crawlID saveJavascript saveAllContent body hash s =
     (let update = response_update L d crawlID
      in if saveAllContent then logWithResponseBody L d update body hash s
         else if saveJavascript \<and> isJS (resourceType d)
         then logWithResponseBody L d update body hash s
         else (Returned, saveRecord ''http_responses'' (ResponseRec update) s))"

definition onCompletedListener ::
  "lib \<Rightarrow> crawl_id \<Rightarrow> bool \<Rightarrow> bool \<Rightarrow> completed_details \<Rightarrow> string settled \<Rightarrow> string settled
     \<Rightarrow> state \<Rightarrow> state" where
  "onCompletedListener L crawlID saveJavascript saveAllContent d body hash s =
     (if requestStemsFromExtension d then s
      else
        (let (pendingResponse, s1) = getPendingResponse (requestId d) s;
             s2 = resp_resolveOnCompletedEventDetails d (requestId d) s1
         in snd (onCompletedHandler L d crawlID saveJavascript saveAllContent body hash s2)))"

section \<open>Notions used in the statements\<close>

text \<open>What a trace holds of each kind of call, in order.\<close>

fun logged_errors :: "call list \<Rightarrow> string list" where
  "logged_errors [] = []"
| "logged_errors (LogError m # cs) = m # logged_errors cs"
| "logged_errors (c # cs) = logged_errors cs"

fun saved_records :: "call list \<Rightarrow> (string \<times> sink_record) list" where
  "saved_records [] = []"
| "saved_records (SaveRecord t r # cs) = (t, r) # saved_records cs"
| "saved_records (c # cs) = saved_records cs"

fun buffer_waits :: "call list \<Rightarrow> (request_id \<times> nat) list" where
  "buffer_waits [] = []"
| "buffer_waits (ResolvedWithinTimeout rid ms # cs) = (rid, ms) # buffer_waits cs"
| "buffer_waits (c # cs) = buffer_waits cs"

fun parser_calls :: "call list \<Rightarrow> (request_id \<times> string) list" where
  "parser_calls [] = []"
| "parser_calls (ParsePostRequest rid enc # cs) = (rid, enc) # parser_calls cs"
| "parser_calls (c # cs) = parser_calls cs"

fun constructed_listeners :: "call list \<Rightarrow> request_id list" where
  "constructed_listeners [] = []"
| "constructed_listeners (NewResponseBodyListener rid # cs) = rid # constructed_listeners cs"
| "constructed_listeners (c # cs) = constructed_listeners cs"

text \<open>The header list of a record before \<open>JSON.stringify\<close>: one escaped pair per header.\<close>

definition header_pairs :: "lib \<Rightarrow> (string \<times> string) list \<Rightarrow> string list list" where
  "header_pairs L hs = map (\<lambda>(n, v). [escapeString L (Some n), escapeString L (Some v)]) hs"

definition request_header_list :: "before_send_headers_details \<Rightarrow> http_header list" where
  "request_header_list d = (case requestHeaders d of None \<Rightarrow> [] | Some hs \<Rightarrow> hs)"

text \<open>
  A request is an OCSP request when one of its headers is named exactly
  \<open>Content-Type\<close> and has a value that contains \<open>application/ocsp-request\<close>.
\<close>

definition is_ocsp_request :: "before_send_headers_details \<Rightarrow> bool" where
  "is_ocsp_request d =
     (case requestHeaders d of
        None \<Rightarrow> False
      | Some hs \<Rightarrow>
          list_ex (\<lambda>(n, v). n = ''Content-Type'' \<and>
            indexOf v ''application/ocsp-request'' \<noteq> - 1) hs)"

text \<open>The value of the last header named exactly \<open>Content-Type\<close>, or the empty string.\<close>

definition content_type_of :: "before_send_headers_details \<Rightarrow> string" where
  "content_type_of d =
     (case requestHeaders d of
        None \<Rightarrow> []
      | Some hs \<Rightarrow>
          (case filter (\<lambda>(n, v). n = ''Content-Type'') hs of
             [] \<Rightarrow> []
           | h # t \<Rightarrow> snd (last (h # t))))"

text \<open>The capture policy: whether the response body of a transaction is captured.\<close>

definition timeout_message :: string where
  "timeout_message =
     ''Pending request timed out waiting for data from both onBeforeRequest and onBeforeSendHeaders events''"

definition capture_required :: "bool \<Rightarrow> bool \<Rightarrow> resource_type \<Rightarrow> bool" where
  "capture_required saveJavascript saveAllContent rt =
     (saveAllContent \<or> (saveJavascript \<and> rt = ''script''))"

section \<open>Concrete inputs\<close>

text \<open>
  One instance of the helpers and a few events, at which the theorems below are
  evaluated. \<open>sample_toISOString\<close> renders milliseconds since the epoch as
  \<open>Date.prototype.toISOString\<close> does for the years 0 to 9999.
\<close>

definition digit_char :: "int \<Rightarrow> char" where
  "digit_char n = char_of (48 + nat (n mod 10))"

definition pad2 :: "int \<Rightarrow> string" where
  "pad2 n = [digit_char (n div 10), digit_char n]"

definition pad3 :: "int \<Rightarrow> string" where
  "pad3 n = [digit_char (n div 100), digit_char (n div 10), digit_char n]"

definition pad4 :: "int \<Rightarrow> string" where
  "pad4 n =
     [digit_char (n div 1000), digit_char (n div 100), digit_char (n div 10), digit_char n]"

definition sample_toISOString :: "int \<Rightarrow> string" where
  "sample_toISOString t =
     (let days = t div 86400000;
          ms = t mod 86400000;
          z = days + 719468;
          era = z div 146097;
          doe = z mod 146097;
          yoe = (doe - doe div 1460 + doe div 36524 - doe div 146096) div 365;
          doy = doe - (365 * yoe + yoe div 4 - yoe div 100);
          mp = (5 * doy + 2) div 153;
          d = doy - (153 * mp + 2) div 5 + 1;
          m = (if mp < 10 then mp + 3 else mp - 9);
          y = yoe + era * 400 + (if m \<le> 2 then 1 else 0)
      in pad4 y @ ''-'' @ pad2 m @ ''-'' @ pad2 d @ ''T'' @ pad2 (ms div 3600000) @ '':'' @
         pad2 (ms div 60000 mod 60) @ '':'' @ pad2 (ms div 1000 mod 60) @ ''.'' @
         pad3 (ms mod 1000) @ ''Z'')"

fun sample_join :: "string list \<Rightarrow> string" where
  "sample_join [] = []"
| "sample_join [x] = x"
| "sample_join (x # y # zs) = x @ '','' @ sample_join (y # zs)"

definition sample_stringify :: "string list list \<Rightarrow> string" where
  "sample_stringify hs =
     ''['' @ sample_join (map (\<lambda>p. ''['' @ sample_join p @ '']'') hs) @ '']''"

definition sample_origin :: "string \<Rightarrow> string option" where
  "sample_origin u =
     (if starts_with ''https://'' u
      then Some (''https://'' @ takeWhile (\<lambda>c. c \<noteq> CHR ''/'') (drop 8 u))
      else None)"

definition sample_parse :: "before_request_details \<Rightarrow> string \<Rightarrow> parsed_post_request" where
  "sample_parse d enc =
     \<lparr>post_headers =
        Some [(''Content-Disposition'', ''form-data''), (''X-Token'', ''abc''),
              (''content-type'', ''text/plain''), (''Content-Length'', ''3'')],
      parsed_post_body = Some ''{a:1}''\<rparr>"

definition sample_lib :: lib where
  "sample_lib =
     \<lparr>escapeString = (\<lambda>x. case x of None \<Rightarrow> ''undefined'' | Some v \<Rightarrow> v),
      boolToInt = (\<lambda>b. if b then 1 else 0),
      toISOString = sample_toISOString,
      stringify_headers = sample_stringify,
      stringify_frameAncestors = map_option (\<lambda>fs. ''[]''),
      URL_origin = sample_origin,
      parsePostRequest = sample_parse,
      undefined_TypeError =
        \<lparr>err_name = ''TypeError'', err_message = ''responseBodyListener is undefined'',
         err_stack = ''logWithResponseBody''\<rparr>\<rparr>"

definition sample_before_request ::
  "string option \<Rightarrow> resource_type \<Rightarrow> before_request_details" where
  "sample_before_request origin rt =
     \<lparr>requestId = 42, url = ''https://a.example/api'', http_method = ''POST'',
      resourceType = rt, timeStamp = 1541203200123, tabId = 7, frameId = 0,
      parentFrameId = - 1, originUrl = origin,
      documentUrl = Some ''https://a.example/index.html'', frameAncestors = Some [],
      requestBody = Some \<lparr>rb_error = None, rb_formData = None, rb_raw = Some [''a=1'']\<rparr>\<rparr>"

definition sample_send_headers ::
  "string option \<Rightarrow> string \<Rightarrow> int \<Rightarrow> http_header list \<Rightarrow> before_send_headers_details" where
  "sample_send_headers origin m tb hs =
     \<lparr>requestId = 42, url = ''https://a.example/api'', http_method = m,
      resourceType = ''xmlhttprequest'', timeStamp = 1541203200123, tabId = tb, frameId = 0,
      parentFrameId = - 1, originUrl = origin,
      documentUrl = Some ''https://a.example/index.html'', frameAncestors = Some [],
      requestHeaders = Some hs\<rparr>"

definition sample_redirect :: "string option \<Rightarrow> before_redirect_details" where
  "sample_redirect origin =
     \<lparr>requestId = 42, url = ''https://a.example/old'', http_method = ''GET'',
      resourceType = ''main_frame'', timeStamp = 1541203200123, tabId = 7, frameId = 0,
      parentFrameId = - 1, originUrl = origin, documentUrl = None, frameAncestors = Some [],
      redirectUrl = ''https://a.example/new''\<rparr>"

definition sample_completed :: "string option \<Rightarrow> resource_type \<Rightarrow> completed_details" where
  "sample_completed origin rt =
     \<lparr>requestId = 42, url = ''https://a.example/x.js'', http_method = ''GET'',
      resourceType = rt, timeStamp = 1541203200123, tabId = 7, frameId = 0,
      parentFrameId = - 1, originUrl = origin,
      documentUrl = Some ''https://a.example/index.html'', frameAncestors = Some [],
      fromCache = True, statusCode = 200, statusLine = ''HTTP/1.1 200 OK'',
      responseHeaders = Some [(''Content-Type'', ''text/javascript'')]\<rparr>"

definition sample_tab :: tab where
  "sample_tab = \<lparr>tab_url = Some ''https://a.example/index.html''\<rparr>"

definition sample_error :: js_error where
  "sample_error =
     \<lparr>err_name = ''Error'', err_message = ''Invalid tab ID: -1'', err_stack = ''''\<rparr>"

definition extension_origin :: "string option" where
  "extension_origin = Some ''moz-extension://0a1b/background.html''"

definition page_origin :: "string option" where
  "page_origin = Some ''https://a.example/index.html''"

section \<open>Substring search\<close>

text \<open>
  \<open>indexOf\<close> finds a substring exactly when there is one, so the tests
  \<open>indexOf(...) > -1\<close> and \<open>indexOf(...) !== -1\<close> of the source both mean
  ``contains''.
\<close>

lemma starts_with_iff: "starts_with sub s = (\<exists>ys. s = sub @ ys)"
  by (induction sub s rule: starts_with.induct) auto

lemma indexOf_from_found:
  "0 \<le> i \<Longrightarrow> (indexOf_from s sub i > - 1) = (\<exists>xs ys. s = xs @ sub @ ys)"
proof (induction s arbitrary: i)
  case Nil
  then show ?case by auto
next
  case (Cons c cs)
  show ?case
  proof (cases "starts_with sub (c # cs)")
    case True
    then obtain ys where "c # cs = [] @ sub @ ys"
      by (auto simp: starts_with_iff)
    then have "\<exists>xs ys. c # cs = xs @ sub @ ys" by blast
    with True Cons.prems show ?thesis by simp
  next
    case False
    have "(\<exists>xs ys. c # cs = xs @ sub @ ys) = (\<exists>xs ys. cs = xs @ sub @ ys)"
    proof
      assume "\<exists>xs ys. c # cs = xs @ sub @ ys"
      then obtain xs ys where e: "c # cs = xs @ sub @ ys" by blast
      from False e have "xs \<noteq> []" by (auto simp: starts_with_iff)
      then obtain x xs' where "xs = x # xs'" by (cases xs) auto
      with e have "cs = xs' @ sub @ ys" by simp
      then show "\<exists>xs ys. cs = xs @ sub @ ys" by blast
    next
      assume "\<exists>xs ys. cs = xs @ sub @ ys"
      then obtain xs ys where "cs = xs @ sub @ ys" by blast
      then have "c # cs = (c # xs) @ sub @ ys" by simp
      then show "\<exists>xs ys. c # cs = xs @ sub @ ys" by blast
    qed
    moreover have "(indexOf_from cs sub (i + 1) > - 1) = (\<exists>xs ys. cs = xs @ sub @ ys)"
      using Cons.IH [of "i + 1"] Cons.prems by simp
    ultimately show ?thesis using False by simp
  qed
qed

lemma indexOf_from_lower: "0 \<le> i \<Longrightarrow> - 1 \<le> indexOf_from s sub i"
  by (induction s arbitrary: i) (auto simp: le_diff_eq intro: order_trans)

lemma indexOf_contains: "(indexOf s sub > - 1) = (\<exists>xs ys. s = xs @ sub @ ys)"
  unfolding indexOf_def by (rule indexOf_from_found) simp

lemma indexOf_neq_contains: "(indexOf s sub \<noteq> - 1) = (\<exists>xs ys. s = xs @ sub @ ys)"
proof -
  have "- 1 \<le> indexOf s sub"
    unfolding indexOf_def by (rule indexOf_from_lower) simp
  then have "(indexOf s sub \<noteq> - 1) = (indexOf s sub > - 1)" by linarith
  then show ?thesis by (simp only: indexOf_contains)
qed

lemma stems_iff:
  "requestStemsFromExtension d =
     (\<exists>xs ys. originUrl d = Some (xs @ ''moz-extension://'' @ ys))"
proof (cases "originUrl d")
  case None
  then show ?thesis by (simp add: requestStemsFromExtension_def)
next
  case (Some u)
  have "(\<exists>xs ys. u = xs @ ''moz-extension://'' @ ys) \<Longrightarrow> u \<noteq> []" by auto
  with Some show ?thesis
    by (auto simp: requestStemsFromExtension_def indexOf_contains)
qed

section \<open>The gateway drops the extension's own traffic\<close>

text \<open>
  C8. An event of any of the four channels whose \<open>originUrl\<close> contains
  \<open>moz-extension://\<close> is dropped at once: the listener leaves the whole state as it
  was (no pending buffer created or resolved, no body listener attached, no call to the
  sink or to any other collaborator), and the pre-request listener answers with the
  empty blocking response.
\<close>

theorem extension_events_are_discarded:
  "(originUrl d1 = Some (xs1 @ ''moz-extension://'' @ ys1) \<longrightarrow>
      onBeforeRequestListener saveJavascript saveAllContent d1 s =
        (empty_blocking_response, s)) \<and>
   (originUrl d2 = Some (xs2 @ ''moz-extension://'' @ ys2) \<longrightarrow>
      onBeforeSendHeadersListener L crawlID d2 arrival tabs_get s = s) \<and>
   (originUrl d3 = Some (xs3 @ ''moz-extension://'' @ ys3) \<longrightarrow>
      onBeforeRedirectListener L crawlID d3 s = s) \<and>
   (originUrl d4 = Some (xs4 @ ''moz-extension://'' @ ys4) \<longrightarrow>
      onCompletedListener L crawlID saveJavascript saveAllContent d4 body hash s = s)"
proof -
  have a: "originUrl d = Some (xs @ ''moz-extension://'' @ ys) \<Longrightarrow>
      requestStemsFromExtension d" for d :: "'a details_scheme" and xs ys
    unfolding stems_iff by blast
  show ?thesis
  proof (intro conjI impI)
    assume "originUrl d1 = Some (xs1 @ ''moz-extension://'' @ ys1)"
    then show "onBeforeRequestListener saveJavascript saveAllContent d1 s =
        (empty_blocking_response, s)"
      using a [of d1 xs1 ys1] by (simp add: onBeforeRequestListener_def)
  next
    assume "originUrl d2 = Some (xs2 @ ''moz-extension://'' @ ys2)"
    then show "onBeforeSendHeadersListener L crawlID d2 arrival tabs_get s = s"
      using a [of d2 xs2 ys2] by (simp add: onBeforeSendHeadersListener_def)
  next
    assume "originUrl d3 = Some (xs3 @ ''moz-extension://'' @ ys3)"
    then show "onBeforeRedirectListener L crawlID d3 s = s"
      using a [of d3 xs3 ys3] by (simp add: onBeforeRedirectListener_def)
  next
    assume "originUrl d4 = Some (xs4 @ ''moz-extension://'' @ ys4)"
    then show "onCompletedListener L crawlID saveJavascript saveAllContent d4 body hash s = s"
      using a [of d4 xs4 ys4] by (simp add: onCompletedListener_def)
  qed
qed

theorem extension_events_are_discarded_witness:
  "onBeforeRequestListener True True
      (sample_before_request extension_origin ''script'') new_HttpInstrument =
     (empty_blocking_response, new_HttpInstrument) \<and>
   onBeforeSendHeadersListener sample_lib 1
      (sample_send_headers extension_origin ''POST'' 7 []) None (Fulfilled sample_tab)
      new_HttpInstrument = new_HttpInstrument \<and>
   onBeforeRedirectListener sample_lib 1 (sample_redirect extension_origin)
      new_HttpInstrument = new_HttpInstrument \<and>
   onCompletedListener sample_lib 1 True True (sample_completed extension_origin ''script'')
      (Fulfilled ''hello'') (Fulfilled ''2cf2'') new_HttpInstrument = new_HttpInstrument"
proof -
  have o1: "originUrl (sample_before_request extension_origin ''script'') =
      Some ([] @ ''moz-extension://'' @ ''0a1b/background.html'')"
    by (simp add: sample_before_request_def extension_origin_def)
  have o2: "originUrl (sample_send_headers extension_origin ''POST'' 7 []) =
      Some ([] @ ''moz-extension://'' @ ''0a1b/background.html'')"
    by (simp add: sample_send_headers_def extension_origin_def)
  have o3: "originUrl (sample_redirect extension_origin) =
      Some ([] @ ''moz-extension://'' @ ''0a1b/background.html'')"
    by (simp add: sample_redirect_def extension_origin_def)
  have o4: "originUrl (sample_completed extension_origin ''script'') =
      Some ([] @ ''moz-extension://'' @ ''0a1b/background.html'')"
    by (simp add: sample_completed_def extension_origin_def)
  show ?thesis
    using o1 o2 o3 o4
      extension_events_are_discarded
        [of "sample_before_request extension_origin ''script''" "[]"
          "''0a1b/background.html''" True True new_HttpInstrument
          "sample_send_headers extension_origin ''POST'' 7 []" "[]"
          "''0a1b/background.html''" sample_lib 1 None "Fulfilled sample_tab"
          "sample_redirect extension_origin" "[]" "''0a1b/background.html''"
          "sample_completed extension_origin ''script''" "[]" "''0a1b/background.html''"
          "Fulfilled ''hello''" "Fulfilled ''2cf2''"]
    by simp
qed

section \<open>The redirect recorder\<close>

text \<open>
  C9. For every redirect-stage event the handler emits exactly one record to the table
  \<open>http_redirects\<close> and does nothing else: the state differs only by that one call,
  so neither map of pending buffers is touched. The record's \<open>old_request_id\<close> is
  the event's \<open>requestId\<close>, its \<open>new_request_id\<close> is \<open>null\<close>, and its time stamp is
  \<open>new Date(details.timeStamp).toISOString()\<close>. The listener hands every event that
  does not stem from the extension to the handler.
\<close>

theorem redirect_emits_one_link_record:
  "onBeforeRedirectHandler L d crawlID s =
     s\<lparr>calls := calls s @
        [SaveRecord ''http_redirects''
           (RedirectRec
              \<lparr>redir_crawl_id = crawlID, old_request_id = requestId d,
               new_request_id = None,
               redir_time_stamp = toISOString L (timeStamp d)\<rparr>)]\<rparr> \<and>
   pendingRequests (onBeforeRedirectHandler L d crawlID s) = pendingRequests s \<and>
   pendingResponses (onBeforeRedirectHandler L d crawlID s) = pendingResponses s \<and>
   (\<not> requestStemsFromExtension d \<longrightarrow>
      onBeforeRedirectListener L crawlID d s = onBeforeRedirectHandler L d crawlID s)"
  by (simp add: onBeforeRedirectHandler_def onBeforeRedirectListener_def saveRecord_def
      emit_def)

theorem redirect_emits_one_link_record_witness:
  "onBeforeRedirectListener sample_lib 1 (sample_redirect page_origin) new_HttpInstrument =
     new_HttpInstrument\<lparr>calls :=
        [SaveRecord ''http_redirects''
           (RedirectRec
              \<lparr>redir_crawl_id = 1, old_request_id = 42, new_request_id = None,
               redir_time_stamp = ''2018-11-03T00:00:00.123Z''\<rparr>)]\<rparr>"
proof -
  have t: "sample_toISOString 1541203200123 = ''2018-11-03T00:00:00.123Z''"
    by code_simp
  have n: "\<not> requestStemsFromExtension (sample_redirect page_origin)"
    by (simp add: requestStemsFromExtension_def sample_redirect_def page_origin_def
        indexOf_def)
  show ?thesis
    using n t redirect_emits_one_link_record
      [of sample_lib "sample_redirect page_origin" 1 new_HttpInstrument]
    by (simp add: sample_redirect_def sample_lib_def new_HttpInstrument_def)
qed

section \<open>The pre-request listener never interferes\<close>

text \<open>
  C10. Whatever the event and the capture options, the pre-request listener answers
  with the empty \<open>BlockingResponse\<close>: it sets no \<open>cancel\<close>, no \<open>redirectUrl\<close> and
  no replacement headers, also when \<open>run\<close> has registered it with \<open>"blocking"\<close>.
\<close>

theorem onBeforeRequest_answers_nothing:
  "fst (onBeforeRequestListener saveJavascript saveAllContent d s) =
     empty_blocking_response \<and>
   empty_blocking_response =
     \<lparr>br_cancel = None, br_redirectUrl = None, br_requestHeaders = None,
      br_responseHeaders = None, br_upgradeToSecure = None\<rparr>"
  by (simp add: onBeforeRequestListener_def empty_blocking_response_def Let_def
      split: prod.splits)

theorem onBeforeRequest_answers_nothing_witness:
  "br_cancel (fst (onBeforeRequestListener True True
      (sample_before_request page_origin ''script'') (run 1 True True new_HttpInstrument))) =
     None \<and>
   br_redirectUrl (fst (onBeforeRequestListener True True
      (sample_before_request page_origin ''script'') (run 1 True True new_HttpInstrument))) =
     None \<and>
   map reg_extraInfoSpec (listeners (run 1 True True new_HttpInstrument) OnBeforeRequest) =
     [[''requestBody'', ''blocking'']]"
proof -
  have r: "map reg_extraInfoSpec
      (listeners (run 1 True True new_HttpInstrument) OnBeforeRequest) =
        [[''requestBody'', ''blocking'']]"
    by (simp add: run_def addListener_def emit_def new_HttpInstrument_def Let_def)
  show ?thesis
    using r onBeforeRequest_answers_nothing
      [of True True "sample_before_request page_origin ''script''"
        "run 1 True True new_HttpInstrument"]
    by (simp add: empty_blocking_response_def)
qed

section \<open>Stopping the instrument\<close>

text \<open>
  \<open>cleanup\<close> changes nothing but the browser's listeners and the trace: the four
  fields that hold the closures keep their values.
\<close>

lemma cleanup_keeps_slots:
  "onBeforeRequestListener_slot (cleanup s) = onBeforeRequestListener_slot s \<and>
   onBeforeSendHeadersListener_slot (cleanup s) = onBeforeSendHeadersListener_slot s \<and>
   onBeforeRedirectListener_slot (cleanup s) = onBeforeRedirectListener_slot s \<and>
   onCompletedListener_slot (cleanup s) = onCompletedListener_slot s"
  by (simp add: cleanup_def removeListener_def emit_def Let_def split: option.splits)

lemma cleanup_listeners:
  "listeners (cleanup s) ch =
     filter (\<lambda>r. Some (reg_fn r) \<noteq>
        (case ch of
           OnBeforeRequest \<Rightarrow> onBeforeRequestListener_slot s
         | OnBeforeSendHeaders \<Rightarrow> onBeforeSendHeadersListener_slot s
         | OnBeforeRedirect \<Rightarrow> onBeforeRedirectListener_slot s
         | OnCompleted \<Rightarrow> onCompletedListener_slot s))
       (listeners s ch)"
  by (cases ch)
    (simp_all add: cleanup_def removeListener_def emit_def Let_def split: option.splits)

lemma cleanup_calls:
  "calls (cleanup s) =
     calls s @
     (case onBeforeRequestListener_slot s of
        Some f \<Rightarrow> [RemoveListener OnBeforeRequest f] | None \<Rightarrow> []) @
     (case onBeforeSendHeadersListener_slot s of
        Some f \<Rightarrow> [RemoveListener OnBeforeSendHeaders f] | None \<Rightarrow> []) @
     (case onBeforeRedirectListener_slot s of
        Some f \<Rightarrow> [RemoveListener OnBeforeRedirect f] | None \<Rightarrow> []) @
     (case onCompletedListener_slot s of
        Some f \<Rightarrow> [RemoveListener OnCompleted f] | None \<Rightarrow> [])"
  by (simp add: cleanup_def removeListener_def emit_def Let_def split: option.splits)

lemma run_listeners:
  "listeners (run crawlID saveJavascript saveAllContent s) ch =
     listeners s ch @
     [\<lparr>reg_fn =
         mk_closure
           (next_fn s + (case ch of OnBeforeRequest \<Rightarrow> 0 | OnBeforeSendHeaders \<Rightarrow> 1
                         | OnBeforeRedirect \<Rightarrow> 2 | OnCompleted \<Rightarrow> 3))
           ch crawlID saveJavascript saveAllContent,
       reg_filter = \<lparr>urls = [''<all_urls>''], types = allTypes\<rparr>,
       reg_extraInfoSpec =
         (case ch of
            OnBeforeRequest \<Rightarrow>
              if saveJavascript \<or> saveAllContent
              then [''requestBody'', ''blocking''] else [''requestBody'']
          | OnBeforeSendHeaders \<Rightarrow> [''requestHeaders'']
          | OnBeforeRedirect \<Rightarrow> [''responseHeaders'']
          | OnCompleted \<Rightarrow> [''responseHeaders''])\<rparr>]"
  by (cases ch) (simp_all add: run_def addListener_def emit_def Let_def)

lemma run_slots:
  "onBeforeRequestListener_slot (run crawlID saveJavascript saveAllContent s) =
     Some (mk_closure (next_fn s) OnBeforeRequest crawlID saveJavascript saveAllContent) \<and>
   onBeforeSendHeadersListener_slot (run crawlID saveJavascript saveAllContent s) =
     Some (mk_closure (next_fn s + 1) OnBeforeSendHeaders crawlID saveJavascript
       saveAllContent) \<and>
   onBeforeRedirectListener_slot (run crawlID saveJavascript saveAllContent s) =
     Some (mk_closure (next_fn s + 2) OnBeforeRedirect crawlID saveJavascript
       saveAllContent) \<and>
   onCompletedListener_slot (run crawlID saveJavascript saveAllContent s) =
     Some (mk_closure (next_fn s + 3) OnCompleted crawlID saveJavascript saveAllContent)"
  by (simp add: run_def addListener_def emit_def Let_def)

text \<open>
  C7. \<open>cleanup\<close> calls \<open>removeListener\<close> on a channel exactly when the field of
  that channel holds a listener, in the order of the source. On an instrument that
  \<open>run\<close> never started it does nothing at all. Called a second time it leaves the
  browser's listeners as the first call left them, and after \<open>run\<close> in a browser
  that had no listener, one or two calls of \<open>cleanup\<close> leave no listener on any
  channel. \<open>cleanup\<close> has no failing branch: \<open>removeListener\<close> of a function that is
  not registered is a no-op of the browser.
\<close>

theorem cleanup_idempotent_safe_before_start:
  "calls (cleanup s) =
     calls s @
     (case onBeforeRequestListener_slot s of
        Some f \<Rightarrow> [RemoveListener OnBeforeRequest f] | None \<Rightarrow> []) @
     (case onBeforeSendHeadersListener_slot s of
        Some f \<Rightarrow> [RemoveListener OnBeforeSendHeaders f] | None \<Rightarrow> []) @
     (case onBeforeRedirectListener_slot s of
        Some f \<Rightarrow> [RemoveListener OnBeforeRedirect f] | None \<Rightarrow> []) @
     (case onCompletedListener_slot s of
        Some f \<Rightarrow> [RemoveListener OnCompleted f] | None \<Rightarrow> []) \<and>
   cleanup new_HttpInstrument = new_HttpInstrument \<and>
   listeners (cleanup (cleanup s)) = listeners (cleanup s) \<and>
   (listeners s = (\<lambda>ch. []) \<longrightarrow>
      listeners (cleanup (run crawlID saveJavascript saveAllContent s)) = (\<lambda>ch. []) \<and>
      listeners (cleanup (cleanup (run crawlID saveJavascript saveAllContent s))) =
        (\<lambda>ch. []))"
proof (intro conjI impI)
  show "cleanup new_HttpInstrument = new_HttpInstrument"
    by (simp add: cleanup_def new_HttpInstrument_def)
next
  show twice: "listeners (cleanup (cleanup s)) = listeners (cleanup s)" for s
  proof
    fix ch
    show "listeners (cleanup (cleanup s)) ch = listeners (cleanup s) ch"
      by (cases ch)
        (simp_all add: cleanup_listeners [of "cleanup s"] cleanup_listeners [of s]
          cleanup_keeps_slots)
  qed
  assume empty: "listeners s = (\<lambda>ch. [])"
  show once: "listeners (cleanup (run crawlID saveJavascript saveAllContent s)) = (\<lambda>ch. [])"
  proof
    fix ch
    show "listeners (cleanup (run crawlID saveJavascript saveAllContent s)) ch = []"
      using empty
      by (cases ch) (simp_all add: cleanup_listeners run_listeners run_slots)
  qed
  show "listeners (cleanup (cleanup (run crawlID saveJavascript saveAllContent s))) =
      (\<lambda>ch. [])"
    using once twice [of "run crawlID saveJavascript saveAllContent s"] by simp
qed (rule cleanup_calls)

theorem cleanup_idempotent_safe_before_start_witness:
  "calls (cleanup new_HttpInstrument) = [] \<and>
   listeners (cleanup (run 1 True False new_HttpInstrument)) = (\<lambda>ch. []) \<and>
   listeners (cleanup (cleanup (run 1 True False new_HttpInstrument))) = (\<lambda>ch. [])"
proof -
  have e: "listeners new_HttpInstrument = (\<lambda>ch. [])"
    by (simp add: new_HttpInstrument_def)
  show ?thesis
    using e cleanup_idempotent_safe_before_start [of new_HttpInstrument 1 True False]
    by (simp add: new_HttpInstrument_def)
qed

section \<open>The request handler: scanning and merging headers\<close>

text \<open>
  A wait that reports the fragment as arrived leaves the fragment to read: the handler
  is never left suspended on \<open>await pendingRequest.onBeforeRequestEventDetails\<close>.
\<close>

lemma resolved_fragment_is_available:
  "resolvedWithinTimeout ms arrival pr \<Longrightarrow>
     await_onBeforeRequestEventDetails arrival pr \<noteq> None"
  by (auto simp: resolvedWithinTimeout_def await_onBeforeRequestEventDetails_def
      split: option.splits)

text \<open>
  A fragment that is not in the buffer yet counts as arrived exactly when it comes
  strictly before the deadline.
\<close>

lemma resolvedWithinTimeout_deadline:
  "resolvedWithinTimeout ms (Some (t, b)) new_PendingRequest = (t < ms) \<and>
   \<not> resolvedWithinTimeout ms None new_PendingRequest"
  by (simp add: resolvedWithinTimeout_def new_PendingRequest_def)

lemma requestHeaders_loop_eq:
  "requestHeaders_loop L hs (headers, enc, ocsp) =
     (headers @ header_pairs L hs,
      (case filter (\<lambda>(n, v). n = ''Content-Type'') hs of
         [] \<Rightarrow> enc | h # t \<Rightarrow> snd (last (h # t))),
      ocsp \<or> list_ex (\<lambda>(n, v). n = ''Content-Type'' \<and>
        indexOf v ''application/ocsp-request'' \<noteq> - 1) hs)"
proof (induction hs arbitrary: headers enc ocsp)
  case Nil
  then show ?case by (simp add: header_pairs_def)
next
  case (Cons h hs)
  obtain n v where h: "h = (n, v)" by (cases h)
  show ?case
  proof (cases "n = ''Content-Type''")
    case True
    with h Cons.IH show ?thesis
      by (cases "filter (\<lambda>(n, v). n = ''Content-Type'') hs")
        (auto simp: header_pairs_def Let_def)
  next
    case False
    with h Cons.IH show ?thesis
      by (simp add: header_pairs_def Let_def)
  qed
qed

lemma scan_requestHeaders_eq:
  "scan_requestHeaders L d =
     (header_pairs L (request_header_list d), content_type_of d, is_ocsp_request d)"
  by (simp add: scan_requestHeaders_def requestHeaders_loop_eq content_type_of_def
      is_ocsp_request_def header_pairs_def request_header_list_def
      split: option.splits list.splits)

lemma post_headers_loop_eq:
  "post_headers_loop L ph headers =
     headers @ header_pairs L (filter (\<lambda>(n, v). n \<in> set contentHeaders) ph)"
proof (induction ph arbitrary: headers)
  case Nil
  then show ?case by (simp add: header_pairs_def)
next
  case (Cons h ph)
  obtain n v where "h = (n, v)" by (cases h)
  with Cons.IH show ?case
    by (simp add: header_pairs_def)
qed

lemma is_ocsp_request_iff:
  "is_ocsp_request d =
     (\<exists>hs v xs ys. requestHeaders d = Some hs \<and> (''Content-Type'', v) \<in> set hs \<and>
        v = xs @ ''application/ocsp-request'' @ ys)"
  by (auto simp: is_ocsp_request_def list_ex_iff indexOf_neq_contains split: option.splits)


lemma getPendingRequest_state:
  "snd (getPendingRequest rid s) =
     s\<lparr>pendingRequests :=
        (case pendingRequests s rid of
           None \<Rightarrow> (pendingRequests s) (rid \<mapsto> new_PendingRequest)
         | Some pr \<Rightarrow> pendingRequests s)\<rparr>"
  by (simp add: getPendingRequest_def split: option.splits)

lemma getPendingRequest_calls: "calls (snd (getPendingRequest rid s)) = calls s"
  by (simp add: getPendingRequest_def split: option.splits)

lemma post_stage_timeout:
  assumes "\<not> resolvedWithinTimeout 1000 arrival (fst (getPendingRequest (requestId d) s))"
  shows "post_stage L d arrival headers enc s =
     ((snd (getPendingRequest (requestId d) s))
        \<lparr>calls := calls s @
           [ResolvedWithinTimeout (requestId d) 1000, LogError timeout_message]\<rparr>,
      Some (headers, None))"
  using assms
  by (simp add: post_stage_def logError_def emit_def timeout_message_def
      getPendingRequest_calls case_prod_beta Let_def)

lemma post_stage_parsed:
  assumes "resolvedWithinTimeout 1000 arrival (fst (getPendingRequest (requestId d) s))"
    and "await_onBeforeRequestEventDetails arrival (fst (getPendingRequest (requestId d) s)) =
      Some obr"
    and "requestBody obr = Some rb"
  shows "post_stage L d arrival headers enc s =
     ((snd (getPendingRequest (requestId d) s))
        \<lparr>calls := calls s @
           [ResolvedWithinTimeout (requestId d) 1000,
            ParsePostRequest (requestId obr) enc]\<rparr>,
      Some ((case post_headers (parsePostRequest L obr enc) of
               None \<Rightarrow> headers
             | Some ph \<Rightarrow>
                 headers @ header_pairs L (filter (\<lambda>(n, v). n \<in> set contentHeaders) ph)),
            parsed_post_body (parsePostRequest L obr enc)))"
  using assms
  by (simp add: post_stage_def emit_def getPendingRequest_calls post_headers_loop_eq Let_def
      case_prod_beta split: option.splits)

lemma finish_request_fulfilled:
  assumes "parse_origin L (originUrl d) = Some triggeringOrigin"
    and "parse_origin L (documentUrl d) = Some loadingOrigin"
  shows "finish_request L d crawlID headers body (Fulfilled t) s =
     (Returned,
      s\<lparr>calls := calls s @
         [TabsGet (tabId d),
          SaveRecord ''http_requests''
            (RequestRec (request_update L d crawlID headers body
               triggeringOrigin loadingOrigin t))]\<rparr>)"
  using assms by (simp add: finish_request_def saveRecord_def emit_def)

lemma finish_request_any:
  "\<exists>cs. snd (finish_request L d crawlID headers body tabs_get s) = s\<lparr>calls := calls s @ cs\<rparr> \<and>
     logged_errors cs = [] \<and> buffer_waits cs = [] \<and> parser_calls cs = [] \<and>
     (saved_records cs = [] \<or>
      (\<exists>to lo t. saved_records cs =
         [(''http_requests'',
           RequestRec (request_update L d crawlID headers body to lo t))])) \<and>
     (\<forall>to lo t. parse_origin L (originUrl d) = Some to \<and>
        parse_origin L (documentUrl d) = Some lo \<and> tabs_get = Fulfilled t \<longrightarrow>
        saved_records cs \<noteq> [])"
proof (cases "parse_origin L (originUrl d)")
  case None
  then have "snd (finish_request L d crawlID headers body tabs_get s) = s\<lparr>calls := calls s @ []\<rparr>"
    by (simp add: finish_request_def)
  with None show ?thesis
    by (intro exI [of _ "[]"]) simp
next
  case to: (Some triggeringOrigin)
  show ?thesis
  proof (cases "parse_origin L (documentUrl d)")
    case None
    with to have "snd (finish_request L d crawlID headers body tabs_get s) =
        s\<lparr>calls := calls s @ []\<rparr>"
      by (simp add: finish_request_def)
    with None show ?thesis
      by (intro exI [of _ "[]"]) simp
  next
    case lo: (Some loadingOrigin)
    show ?thesis
    proof (cases tabs_get)
      case (Fulfilled t)
      have "snd (finish_request L d crawlID headers body tabs_get s) =
          s\<lparr>calls := calls s @
             [TabsGet (tabId d),
              SaveRecord ''http_requests''
                (RequestRec (request_update L d crawlID headers body
                   triggeringOrigin loadingOrigin t))]\<rparr>"
        using finish_request_fulfilled [OF to lo] Fulfilled by simp
      then show ?thesis
        by (intro exI [of _ "[TabsGet (tabId d),
              SaveRecord ''http_requests''
                (RequestRec (request_update L d crawlID headers body
                   triggeringOrigin loadingOrigin t))]"]) auto
    next
      case (Rejected e)
      with to lo have "snd (finish_request L d crawlID headers body tabs_get s) =
          s\<lparr>calls := calls s @ [TabsGet (tabId d)]\<rparr>"
        by (simp add: finish_request_def emit_def)
      with Rejected show ?thesis
        by (intro exI [of _ "[TabsGet (tabId d)]"]) simp
    next
      case Unsettled
      with to lo have "snd (finish_request L d crawlID headers body tabs_get s) =
          s\<lparr>calls := calls s @ [TabsGet (tabId d)]\<rparr>"
        by (simp add: finish_request_def emit_def)
      with Unsettled show ?thesis
        by (intro exI [of _ "[TabsGet (tabId d)]"]) simp
    qed
  qed
qed

section \<open>OCSP requests\<close>

lemma onBeforeSendHeadersHandler_unfold:
  "onBeforeSendHeadersHandler L d crawlID arrival tabs_get s =
     (if http_method d = ''POST'' \<and> \<not> is_ocsp_request d
      then (case post_stage L d arrival (header_pairs L (request_header_list d))
                   (content_type_of d) s of
              (s1, None) \<Rightarrow> (Suspended, s1)
            | (s1, Some (headers', body)) \<Rightarrow>
                finish_request L d crawlID headers' body tabs_get s1)
      else finish_request L d crawlID (header_pairs L (request_header_list d)) None
             tabs_get s)"
  by (simp add: onBeforeSendHeadersHandler_def scan_requestHeaders_eq)

text \<open>
  C5. The scan of the request headers compares each name with the exact string
  \<open>Content-Type\<close>: the encoding type is the value of the last header of that name
  (\<open>content_type_of\<close>), and the request is classified as OCSP as soon as one such
  value contains \<open>application/ocsp-request\<close>. For an OCSP request, whatever its method,
  the handler leaves the pending buffers as they are, calls neither the wait of the
  buffer nor the parser, logs no error, and the record it emits, if the handler gets
  that far, has no \<open>post_body\<close> and the event's own headers only.
\<close>

theorem ocsp_requests_skip_post_processing:
  assumes "requestHeaders d = Some hs"
    and "(''Content-Type'', xs @ ''application/ocsp-request'' @ ys) \<in> set hs"
  shows "scan_requestHeaders L d = (header_pairs L hs, content_type_of d, True) \<and>
    (\<exists>cs. snd (onBeforeSendHeadersHandler L d crawlID arrival tabs_get s) =
            s\<lparr>calls := calls s @ cs\<rparr> \<and>
          buffer_waits cs = [] \<and> parser_calls cs = [] \<and> logged_errors cs = [] \<and>
          (saved_records cs = [] \<or>
           (\<exists>r. saved_records cs = [(''http_requests'', RequestRec r)] \<and>
              post_body r = None \<and>
              req_headers r = stringify_headers L (header_pairs L hs))))"
proof -
  have ocsp: "is_ocsp_request d"
    unfolding is_ocsp_request_iff using assms by blast
  have hs: "request_header_list d = hs"
    using assms(1) by (simp add: request_header_list_def)
  have scan: "scan_requestHeaders L d = (header_pairs L hs, content_type_of d, True)"
    using ocsp hs by (simp add: scan_requestHeaders_eq)
  have run: "onBeforeSendHeadersHandler L d crawlID arrival tabs_get s =
      finish_request L d crawlID (header_pairs L hs) None tabs_get s"
    using ocsp hs by (simp add: onBeforeSendHeadersHandler_unfold)
  obtain cs where cs: "snd (finish_request L d crawlID (header_pairs L hs) None tabs_get s) =
        s\<lparr>calls := calls s @ cs\<rparr>"
      "logged_errors cs = []" "buffer_waits cs = []" "parser_calls cs = []"
      "saved_records cs = [] \<or>
       (\<exists>to lo t. saved_records cs =
          [(''http_requests'',
            RequestRec (request_update L d crawlID (header_pairs L hs) None to lo t))])"
    using finish_request_any [of L d crawlID "header_pairs L hs" None tabs_get s] by blast
  from cs(5) have "saved_records cs = [] \<or>
      (\<exists>r. saved_records cs = [(''http_requests'', RequestRec r)] \<and> post_body r = None \<and>
         req_headers r = stringify_headers L (header_pairs L hs))"
    by (auto simp: request_update_def)
  with cs(1-4) run scan show ?thesis by auto
qed

theorem ocsp_requests_skip_post_processing_witness:
  "calls (snd (onBeforeSendHeadersHandler sample_lib
      (sample_send_headers page_origin ''POST'' 7
         [(''content-type'', ''text/plain''),
          (''Content-Type'', ''application/ocsp-request'')])
      1 (Some (10, sample_before_request page_origin ''other'')) (Fulfilled sample_tab)
      new_HttpInstrument)) =
     [TabsGet 7,
      SaveRecord ''http_requests''
        (RequestRec
           \<lparr>req_crawl_id = 1, req_request_id = 42, req_url = ''https://a.example/api'',
            req_method = ''POST'', req_time_stamp = ''2018-11-03T00:00:00.123Z'',
            post_body = None,
            req_headers =
              ''[[content-type,text/plain],[Content-Type,application/ocsp-request]]'',
            is_XHR = 1, is_full_page = 1, is_frame_load = 0,
            triggering_origin = ''https://a.example'',
            loading_origin = ''https://a.example'',
            loading_href = ''https://a.example/index.html'',
            resource_type = ''xmlhttprequest'',
            top_level_url = ''https://a.example/index.html'',
            parent_frame_id = - 1, frame_ancestors = ''[]''\<rparr>)] \<and>
   (\<exists>cs. snd (onBeforeSendHeadersHandler sample_lib
      (sample_send_headers page_origin ''POST'' 7
         [(''content-type'', ''text/plain''),
          (''Content-Type'', ''application/ocsp-request'')])
      1 (Some (10, sample_before_request page_origin ''other'')) (Fulfilled sample_tab)
      new_HttpInstrument) = new_HttpInstrument\<lparr>calls := cs\<rparr> \<and>
      buffer_waits cs = [] \<and> parser_calls cs = [] \<and> logged_errors cs = [])"
proof -
  have h1: "requestHeaders (sample_send_headers page_origin ''POST'' 7
         [(''content-type'', ''text/plain''),
          (''Content-Type'', ''application/ocsp-request'')]) =
      Some [(''content-type'', ''text/plain''),
          (''Content-Type'', ''application/ocsp-request'')]"
    by (simp add: sample_send_headers_def)
  have h2: "(''Content-Type'', [] @ ''application/ocsp-request'' @ []) \<in>
      set [(''content-type'', ''text/plain''),
          (''Content-Type'', ''application/ocsp-request'')]"
    by simp
  have e: "calls (snd (onBeforeSendHeadersHandler sample_lib
      (sample_send_headers page_origin ''POST'' 7
         [(''content-type'', ''text/plain''),
          (''Content-Type'', ''application/ocsp-request'')])
      1 (Some (10, sample_before_request page_origin ''other'')) (Fulfilled sample_tab)
      new_HttpInstrument)) =
     [TabsGet 7,
      SaveRecord ''http_requests''
        (RequestRec
           \<lparr>req_crawl_id = 1, req_request_id = 42, req_url = ''https://a.example/api'',
            req_method = ''POST'', req_time_stamp = ''2018-11-03T00:00:00.123Z'',
            post_body = None,
            req_headers =
              ''[[content-type,text/plain],[Content-Type,application/ocsp-request]]'',
            is_XHR = 1, is_full_page = 1, is_frame_load = 0,
            triggering_origin = ''https://a.example'',
            loading_origin = ''https://a.example'',
            loading_href = ''https://a.example/index.html'',
            resource_type = ''xmlhttprequest'',
            top_level_url = ''https://a.example/index.html'',
            parent_frame_id = - 1, frame_ancestors = ''[]''\<rparr>)]"
    by code_simp
  show ?thesis
    using e ocsp_requests_skip_post_processing [OF h1 h2, of sample_lib 1
        "Some (10, sample_before_request page_origin ''other'')" "Fulfilled sample_tab"
        new_HttpInstrument]
    by (auto simp: new_HttpInstrument_def)
qed

lemma content_type_match_is_case_sensitive:
  "buffer_waits (calls (snd (onBeforeSendHeadersHandler sample_lib
      (sample_send_headers page_origin ''POST'' 7
         [(''content-type'', ''application/ocsp-request'')])
      1 None (Fulfilled sample_tab) new_HttpInstrument))) = [(42, 1000)]"
  by code_simp

section \<open>POST requests\<close>

lemma saved_records_request_update:
  assumes "saved_records cs = [] \<or>
      (\<exists>to lo t. saved_records cs =
         [(''http_requests'', RequestRec (request_update L d crawlID headers body to lo t))])"
  shows "saved_records cs = [] \<or>
      (\<exists>r. saved_records cs = [(''http_requests'', RequestRec r)] \<and> post_body r = body \<and>
         req_headers r = stringify_headers L headers)"
  using assms by (auto simp: request_update_def)

text \<open>
  C6. When the body fragment arrives in time with an upload body and the parser returns
  \<open>post_headers\<close>, the header list of the record is the event's own headers followed
  by the recovered headers named exactly \<open>Content-Type\<close>, \<open>Content-Disposition\<close> or
  \<open>Content-Length\<close>, in the parser's order; every other recovered header is dropped.
  This holds of every record the handler emits, and it emits one whenever the origin
  URLs parse and the tab lookup fulfils.
\<close>

theorem recovered_headers_pass_allow_list:
  assumes "http_method d = ''POST''" and "\<not> is_ocsp_request d"
    and "resolvedWithinTimeout 1000 arrival (fst (getPendingRequest (requestId d) s))"
    and "await_onBeforeRequestEventDetails arrival
           (fst (getPendingRequest (requestId d) s)) = Some obr"
    and "requestBody obr = Some rb"
    and "post_headers (parsePostRequest L obr (content_type_of d)) = Some ph"
  shows "\<exists>cs. snd (onBeforeSendHeadersHandler L d crawlID arrival tabs_get s) =
      (snd (getPendingRequest (requestId d) s))
        \<lparr>calls := calls s @
           [ResolvedWithinTimeout (requestId d) 1000,
            ParsePostRequest (requestId obr) (content_type_of d)] @ cs\<rparr> \<and>
      (saved_records cs = [] \<or>
       (\<exists>r. saved_records cs = [(''http_requests'', RequestRec r)] \<and>
          req_headers r =
            stringify_headers L
              (header_pairs L (request_header_list d) @
               header_pairs L
                 (filter (\<lambda>(n, v). n = ''Content-Type'' \<or> n = ''Content-Disposition'' \<or>
                    n = ''Content-Length'') ph)))) \<and>
      (\<forall>to lo t. parse_origin L (originUrl d) = Some to \<and>
         parse_origin L (documentUrl d) = Some lo \<and> tabs_get = Fulfilled t \<longrightarrow>
         saved_records cs \<noteq> [])"
proof -
  let ?s1 = "(snd (getPendingRequest (requestId d) s))
        \<lparr>calls := calls s @
           [ResolvedWithinTimeout (requestId d) 1000,
            ParsePostRequest (requestId obr) (content_type_of d)]\<rparr>"
  let ?hs = "header_pairs L (request_header_list d) @
       header_pairs L
         (filter (\<lambda>(n, v). n = ''Content-Type'' \<or> n = ''Content-Disposition'' \<or>
            n = ''Content-Length'') ph)"
  let ?body = "parsed_post_body (parsePostRequest L obr (content_type_of d))"
  have allow: "(\<lambda>(n, v). n \<in> set contentHeaders) =
      (\<lambda>(n :: string, v :: string). n = ''Content-Type'' \<or> n = ''Content-Disposition'' \<or>
         n = ''Content-Length'')"
    by (auto simp: contentHeaders_def)
  have stage: "post_stage L d arrival (header_pairs L (request_header_list d))
      (content_type_of d) s = (?s1, Some (?hs, ?body))"
    using post_stage_parsed [OF assms(3) assms(4) assms(5)] assms(6) by (simp add: allow)
  have run: "onBeforeSendHeadersHandler L d crawlID arrival tabs_get s =
      finish_request L d crawlID ?hs ?body tabs_get ?s1"
    using assms(1,2) stage by (simp add: onBeforeSendHeadersHandler_unfold)
  obtain cs where cs: "snd (finish_request L d crawlID ?hs ?body tabs_get ?s1) =
        ?s1\<lparr>calls := calls ?s1 @ cs\<rparr>"
      "saved_records cs = [] \<or>
       (\<exists>to lo t. saved_records cs =
          [(''http_requests'', RequestRec (request_update L d crawlID ?hs ?body to lo t))])"
      "\<forall>to lo t. parse_origin L (originUrl d) = Some to \<and>
         parse_origin L (documentUrl d) = Some lo \<and> tabs_get = Fulfilled t \<longrightarrow>
         saved_records cs \<noteq> []"
    using finish_request_any [of L d crawlID ?hs ?body tabs_get ?s1] by blast
  have st: "snd (onBeforeSendHeadersHandler L d crawlID arrival tabs_get s) =
      (snd (getPendingRequest (requestId d) s))
        \<lparr>calls := calls s @
           [ResolvedWithinTimeout (requestId d) 1000,
            ParsePostRequest (requestId obr) (content_type_of d)] @ cs\<rparr>"
    using cs(1) run by simp
  from saved_records_request_update [OF cs(2)]
  have hd: "saved_records cs = [] \<or>
      (\<exists>r. saved_records cs = [(''http_requests'', RequestRec r)] \<and>
         req_headers r = stringify_headers L ?hs)"
    by blast
  show ?thesis
    using st hd cs(3) by (intro exI [of _ cs] conjI)
qed

theorem recovered_headers_pass_allow_list_witness:
  "calls (snd (onBeforeSendHeadersHandler sample_lib
      (sample_send_headers page_origin ''POST'' 7
         [(''Content-Type'', ''multipart/form-data'')])
      1 (Some (10, sample_before_request page_origin ''other'')) (Fulfilled sample_tab)
      new_HttpInstrument)) =
     [ResolvedWithinTimeout 42 1000, ParsePostRequest 42 ''multipart/form-data'', TabsGet 7,
      SaveRecord ''http_requests''
        (RequestRec
           \<lparr>req_crawl_id = 1, req_request_id = 42, req_url = ''https://a.example/api'',
            req_method = ''POST'', req_time_stamp = ''2018-11-03T00:00:00.123Z'',
            post_body = Some ''{a:1}'',
            req_headers =
              ''[[Content-Type,multipart/form-data],[Content-Disposition,form-data],[Content-Length,3]]'',
            is_XHR = 1, is_full_page = 1, is_frame_load = 0,
            triggering_origin = ''https://a.example'',
            loading_origin = ''https://a.example'',
            loading_href = ''https://a.example/index.html'',
            resource_type = ''xmlhttprequest'',
            top_level_url = ''https://a.example/index.html'',
            parent_frame_id = - 1, frame_ancestors = ''[]''\<rparr>)] \<and>
   (\<exists>cs. calls (snd (onBeforeSendHeadersHandler sample_lib
      (sample_send_headers page_origin ''POST'' 7
         [(''Content-Type'', ''multipart/form-data'')])
      1 (Some (10, sample_before_request page_origin ''other'')) (Fulfilled sample_tab)
      new_HttpInstrument)) =
        [ResolvedWithinTimeout 42 1000, ParsePostRequest 42 ''multipart/form-data''] @ cs \<and>
      saved_records cs \<noteq> [])"
proof -
  let ?d = "sample_send_headers page_origin ''POST'' 7
         [(''Content-Type'', ''multipart/form-data'')]"
  let ?b = "sample_before_request page_origin ''other''"
  have h1: "http_method ?d = ''POST''"
    by (simp add: sample_send_headers_def)
  have h2: "\<not> is_ocsp_request ?d"
    by code_simp
  have h3: "resolvedWithinTimeout 1000 (Some (10, ?b))
      (fst (getPendingRequest (requestId ?d) new_HttpInstrument))"
    by (simp add: resolvedWithinTimeout_def getPendingRequest_def new_HttpInstrument_def
        new_PendingRequest_def)
  have h4: "await_onBeforeRequestEventDetails (Some (10, ?b))
      (fst (getPendingRequest (requestId ?d) new_HttpInstrument)) = Some ?b"
    by (simp add: await_onBeforeRequestEventDetails_def getPendingRequest_def
        new_HttpInstrument_def new_PendingRequest_def)
  have h5: "requestBody ?b =
      Some \<lparr>rb_error = None, rb_formData = None, rb_raw = Some [''a=1'']\<rparr>"
    by (simp add: sample_before_request_def)
  have h6: "post_headers (parsePostRequest sample_lib ?b (content_type_of ?d)) =
      Some [(''Content-Disposition'', ''form-data''), (''X-Token'', ''abc''),
            (''content-type'', ''text/plain''), (''Content-Length'', ''3'')]"
    by (simp add: sample_lib_def sample_parse_def)
  have o: "parse_origin sample_lib (originUrl ?d) = Some (Some ''https://a.example'')"
      "parse_origin sample_lib (documentUrl ?d) = Some (Some ''https://a.example'')"
    by code_simp+
  have e: "calls (snd (onBeforeSendHeadersHandler sample_lib ?d
      1 (Some (10, ?b)) (Fulfilled sample_tab) new_HttpInstrument)) =
     [ResolvedWithinTimeout 42 1000, ParsePostRequest 42 ''multipart/form-data'', TabsGet 7,
      SaveRecord ''http_requests''
        (RequestRec
           \<lparr>req_crawl_id = 1, req_request_id = 42, req_url = ''https://a.example/api'',
            req_method = ''POST'', req_time_stamp = ''2018-11-03T00:00:00.123Z'',
            post_body = Some ''{a:1}'',
            req_headers =
              ''[[Content-Type,multipart/form-data],[Content-Disposition,form-data],[Content-Length,3]]'',
            is_XHR = 1, is_full_page = 1, is_frame_load = 0,
            triggering_origin = ''https://a.example'',
            loading_origin = ''https://a.example'',
            loading_href = ''https://a.example/index.html'',
            resource_type = ''xmlhttprequest'',
            top_level_url = ''https://a.example/index.html'',
            parent_frame_id = - 1, frame_ancestors = ''[]''\<rparr>)]"
    by code_simp
  obtain cs where cs: "snd (onBeforeSendHeadersHandler sample_lib ?d
      1 (Some (10, ?b)) (Fulfilled sample_tab) new_HttpInstrument) =
      (snd (getPendingRequest (requestId ?d) new_HttpInstrument))
        \<lparr>calls := calls new_HttpInstrument @
           [ResolvedWithinTimeout (requestId ?d) 1000,
            ParsePostRequest (requestId ?b) (content_type_of ?d)] @ cs\<rparr>"
      "saved_records cs \<noteq> []"
    using recovered_headers_pass_allow_list [OF h1 h2 h3 h4 h5 h6, of 1 "Fulfilled sample_tab"] o
    by blast
  have ids: "requestId ?d = 42" "requestId ?b = 42"
      "content_type_of ?d = ''multipart/form-data''" "calls new_HttpInstrument = []"
    by (simp_all add: sample_send_headers_def sample_before_request_def content_type_of_def
        new_HttpInstrument_def)
  have "calls (snd (onBeforeSendHeadersHandler sample_lib ?d
      1 (Some (10, ?b)) (Fulfilled sample_tab) new_HttpInstrument)) =
        [ResolvedWithinTimeout 42 1000, ParsePostRequest 42 ''multipart/form-data''] @ cs"
    using cs(1) ids by simp
  with cs(2) e show ?thesis by blast
qed

lemma buffer_waits_append: "buffer_waits (xs @ ys) = buffer_waits xs @ buffer_waits ys"
  by (induction xs rule: buffer_waits.induct) simp_all

lemma post_stage_waits_once:
  "\<exists>cs. fst (post_stage L d arrival headers enc s) =
        (snd (getPendingRequest (requestId d) s))
          \<lparr>calls := calls s @ ResolvedWithinTimeout (requestId d) 1000 # cs\<rparr> \<and>
      buffer_waits cs = []"
proof (cases "resolvedWithinTimeout 1000 arrival (fst (getPendingRequest (requestId d) s))")
  case False
  then show ?thesis
    by (intro exI [of _ "[LogError timeout_message]"]) (simp add: post_stage_timeout)
next
  case True
  show ?thesis
  proof (cases "await_onBeforeRequestEventDetails arrival
      (fst (getPendingRequest (requestId d) s))")
    case None
    with True show ?thesis
      by (intro exI [of _ "[]"])
        (simp add: post_stage_def emit_def getPendingRequest_calls case_prod_beta Let_def)
  next
    case (Some obr)
    show ?thesis
    proof (cases "requestBody obr")
      case None
      with True Some show ?thesis
        by (intro exI [of _ "[]"])
          (simp add: post_stage_def emit_def getPendingRequest_calls case_prod_beta Let_def)
    next
      case (Some rb)
      with True \<open>await_onBeforeRequestEventDetails arrival
          (fst (getPendingRequest (requestId d) s)) = Some obr\<close>
      show ?thesis
        by (intro exI [of _ "[ParsePostRequest (requestId obr) enc]"])
          (simp add: post_stage_parsed)
    qed
  qed
qed

lemma onBeforeSendHeadersHandler_post:
  assumes "http_method d = ''POST''" and "\<not> is_ocsp_request d"
    and "post_stage L d arrival (header_pairs L (request_header_list d))
           (content_type_of d) s = (s1, r)"
  shows "onBeforeSendHeadersHandler L d crawlID arrival tabs_get s =
     (case r of
        None \<Rightarrow> (Suspended, s1)
      | Some (headers', body) \<Rightarrow> finish_request L d crawlID headers' body tabs_get s1)"
  using assms by (simp add: onBeforeSendHeadersHandler_unfold)

text \<open>
  C2. For a POST request that is not an OCSP request the handler first waits on the
  pending buffer, once and with the timeout 1000. If the wait times out, the handler
  logs exactly one error and calls no parser, and whatever record it emits has no
  \<open>post_body\<close>. The record is emitted when the origin and document URLs parse and the
  tab lookup fulfils; the handler has no other path to \<open>saveRecord\<close>.
\<close>

theorem post_wait_times_out:
  assumes "http_method d = ''POST''" and "\<not> is_ocsp_request d"
  shows "(\<exists>cs. calls (snd (onBeforeSendHeadersHandler L d crawlID arrival tabs_get s)) =
            calls s @ ResolvedWithinTimeout (requestId d) 1000 # cs \<and>
          buffer_waits cs = []) \<and>
    (\<not> resolvedWithinTimeout 1000 arrival (fst (getPendingRequest (requestId d) s)) \<longrightarrow>
       (\<exists>cs. snd (onBeforeSendHeadersHandler L d crawlID arrival tabs_get s) =
            (snd (getPendingRequest (requestId d) s))
              \<lparr>calls := calls s @
                 [ResolvedWithinTimeout (requestId d) 1000, LogError timeout_message] @
                 cs\<rparr> \<and>
          logged_errors cs = [] \<and> parser_calls cs = [] \<and>
          (saved_records cs = [] \<or>
           (\<exists>r. saved_records cs = [(''http_requests'', RequestRec r)] \<and>
              post_body r = None)) \<and>
          (\<forall>to lo t. parse_origin L (originUrl d) = Some to \<and>
             parse_origin L (documentUrl d) = Some lo \<and> tabs_get = Fulfilled t \<longrightarrow>
             saved_records cs \<noteq> [])))"
proof (intro conjI impI)
  let ?hs = "header_pairs L (request_header_list d)"
  let ?stage = "post_stage L d arrival ?hs (content_type_of d) s"
  obtain s1 r where sr: "?stage = (s1, r)"
    by (cases ?stage)
  obtain cs1 where cs1: "s1 =
        (snd (getPendingRequest (requestId d) s))
          \<lparr>calls := calls s @ ResolvedWithinTimeout (requestId d) 1000 # cs1\<rparr>"
      "buffer_waits cs1 = []"
    using post_stage_waits_once [of L d arrival ?hs "content_type_of d" s] sr by auto
  note run = onBeforeSendHeadersHandler_post [OF assms sr, of crawlID tabs_get]
  show "\<exists>cs. calls (snd (onBeforeSendHeadersHandler L d crawlID arrival tabs_get s)) =
            calls s @ ResolvedWithinTimeout (requestId d) 1000 # cs \<and>
          buffer_waits cs = []"
  proof (cases r)
    case None
    with run have "snd (onBeforeSendHeadersHandler L d crawlID arrival tabs_get s) = s1"
      by simp
    with cs1 show ?thesis by (intro exI [of _ cs1]) simp
  next
    case (Some p)
    obtain h b where p: "p = (h, b)" by (cases p)
    from Some p run have run': "onBeforeSendHeadersHandler L d crawlID arrival tabs_get s =
        finish_request L d crawlID h b tabs_get s1"
      by simp
    obtain cs2 where cs2: "snd (finish_request L d crawlID h b tabs_get s1) =
          s1\<lparr>calls := calls s1 @ cs2\<rparr>"
        "buffer_waits cs2 = []"
      using finish_request_any [of L d crawlID h b tabs_get s1] by blast
    have "calls (snd (onBeforeSendHeadersHandler L d crawlID arrival tabs_get s)) =
        calls s @ ResolvedWithinTimeout (requestId d) 1000 # (cs1 @ cs2)"
      using run' cs2(1) cs1(1) by simp
    with cs1(2) cs2(2) show ?thesis
      by (intro exI [of _ "cs1 @ cs2"]) (simp add: buffer_waits_append)
  qed
next
  let ?hs = "header_pairs L (request_header_list d)"
  let ?s1 = "(snd (getPendingRequest (requestId d) s))
      \<lparr>calls := calls s @
         [ResolvedWithinTimeout (requestId d) 1000, LogError timeout_message]\<rparr>"
  assume timeout: "\<not> resolvedWithinTimeout 1000 arrival
      (fst (getPendingRequest (requestId d) s))"
  have run: "onBeforeSendHeadersHandler L d crawlID arrival tabs_get s =
      finish_request L d crawlID ?hs None tabs_get ?s1"
    using assms by (simp add: onBeforeSendHeadersHandler_unfold post_stage_timeout [OF timeout])
  obtain cs where cs: "snd (finish_request L d crawlID ?hs None tabs_get ?s1) =
        ?s1\<lparr>calls := calls ?s1 @ cs\<rparr>"
      "logged_errors cs = []" "parser_calls cs = []"
      "saved_records cs = [] \<or>
       (\<exists>to lo t. saved_records cs =
          [(''http_requests'', RequestRec (request_update L d crawlID ?hs None to lo t))])"
      "\<forall>to lo t. parse_origin L (originUrl d) = Some to \<and>
         parse_origin L (documentUrl d) = Some lo \<and> tabs_get = Fulfilled t \<longrightarrow>
         saved_records cs \<noteq> []"
    using finish_request_any [of L d crawlID ?hs None tabs_get ?s1] by blast
  have st: "snd (onBeforeSendHeadersHandler L d crawlID arrival tabs_get s) =
      (snd (getPendingRequest (requestId d) s))
        \<lparr>calls := calls s @
           [ResolvedWithinTimeout (requestId d) 1000, LogError timeout_message] @ cs\<rparr>"
    using cs(1) run by simp
  from saved_records_request_update [OF cs(4)]
  have rec: "saved_records cs = [] \<or>
      (\<exists>r. saved_records cs = [(''http_requests'', RequestRec r)] \<and> post_body r = None)"
    by blast
  show "\<exists>cs. snd (onBeforeSendHeadersHandler L d crawlID arrival tabs_get s) =
            (snd (getPendingRequest (requestId d) s))
              \<lparr>calls := calls s @
                 [ResolvedWithinTimeout (requestId d) 1000, LogError timeout_message] @
                 cs\<rparr> \<and>
          logged_errors cs = [] \<and> parser_calls cs = [] \<and>
          (saved_records cs = [] \<or>
           (\<exists>r. saved_records cs = [(''http_requests'', RequestRec r)] \<and>
              post_body r = None)) \<and>
          (\<forall>to lo t. parse_origin L (originUrl d) = Some to \<and>
             parse_origin L (documentUrl d) = Some lo \<and> tabs_get = Fulfilled t \<longrightarrow>
             saved_records cs \<noteq> [])"
    using st cs(2) cs(3) rec cs(5) by (intro exI [of _ cs] conjI)
qed

theorem post_wait_times_out_witness:
  "calls (snd (onBeforeSendHeadersHandler sample_lib
      (sample_send_headers page_origin ''POST'' 7
         [(''Content-Type'', ''multipart/form-data'')])
      1 (Some (1000, sample_before_request page_origin ''other'')) (Fulfilled sample_tab)
      new_HttpInstrument)) =
     [ResolvedWithinTimeout 42 1000, LogError timeout_message, TabsGet 7,
      SaveRecord ''http_requests''
        (RequestRec
           \<lparr>req_crawl_id = 1, req_request_id = 42, req_url = ''https://a.example/api'',
            req_method = ''POST'', req_time_stamp = ''2018-11-03T00:00:00.123Z'',
            post_body = None,
            req_headers = ''[[Content-Type,multipart/form-data]]'',
            is_XHR = 1, is_full_page = 1, is_frame_load = 0,
            triggering_origin = ''https://a.example'',
            loading_origin = ''https://a.example'',
            loading_href = ''https://a.example/index.html'',
            resource_type = ''xmlhttprequest'',
            top_level_url = ''https://a.example/index.html'',
            parent_frame_id = - 1, frame_ancestors = ''[]''\<rparr>)] \<and>
   (\<exists>cs. calls (snd (onBeforeSendHeadersHandler sample_lib
      (sample_send_headers page_origin ''POST'' 7
         [(''Content-Type'', ''multipart/form-data'')])
      1 (Some (1000, sample_before_request page_origin ''other'')) (Fulfilled sample_tab)
      new_HttpInstrument)) =
        [ResolvedWithinTimeout 42 1000, LogError timeout_message] @ cs \<and>
      logged_errors cs = [] \<and> saved_records cs \<noteq> [])"
proof -
  let ?d = "sample_send_headers page_origin ''POST'' 7
         [(''Content-Type'', ''multipart/form-data'')]"
  let ?b = "sample_before_request page_origin ''other''"
  have h1: "http_method ?d = ''POST''"
    by (simp add: sample_send_headers_def)
  have h2: "\<not> is_ocsp_request ?d"
    by code_simp
  have h3: "\<not> resolvedWithinTimeout 1000 (Some (1000, ?b))
      (fst (getPendingRequest (requestId ?d) new_HttpInstrument))"
    by (simp add: resolvedWithinTimeout_def getPendingRequest_def new_HttpInstrument_def
        new_PendingRequest_def)
  have o: "parse_origin sample_lib (originUrl ?d) = Some (Some ''https://a.example'')"
      "parse_origin sample_lib (documentUrl ?d) = Some (Some ''https://a.example'')"
    by code_simp+
  have e: "calls (snd (onBeforeSendHeadersHandler sample_lib ?d
      1 (Some (1000, ?b)) (Fulfilled sample_tab) new_HttpInstrument)) =
     [ResolvedWithinTimeout 42 1000, LogError timeout_message, TabsGet 7,
      SaveRecord ''http_requests''
        (RequestRec
           \<lparr>req_crawl_id = 1, req_request_id = 42, req_url = ''https://a.example/api'',
            req_method = ''POST'', req_time_stamp = ''2018-11-03T00:00:00.123Z'',
            post_body = None,
            req_headers = ''[[Content-Type,multipart/form-data]]'',
            is_XHR = 1, is_full_page = 1, is_frame_load = 0,
            triggering_origin = ''https://a.example'',
            loading_origin = ''https://a.example'',
            loading_href = ''https://a.example/index.html'',
            resource_type = ''xmlhttprequest'',
            top_level_url = ''https://a.example/index.html'',
            parent_frame_id = - 1, frame_ancestors = ''[]''\<rparr>)]"
    by code_simp
  obtain cs where cs: "snd (onBeforeSendHeadersHandler sample_lib ?d
      1 (Some (1000, ?b)) (Fulfilled sample_tab) new_HttpInstrument) =
      (snd (getPendingRequest (requestId ?d) new_HttpInstrument))
        \<lparr>calls := calls new_HttpInstrument @
           [ResolvedWithinTimeout (requestId ?d) 1000, LogError timeout_message] @ cs\<rparr>"
      "logged_errors cs = []" "saved_records cs \<noteq> []"
    using post_wait_times_out [OF h1 h2, of sample_lib 1 "Some (1000, ?b)"
        "Fulfilled sample_tab" new_HttpInstrument] h3 o
    by blast
  have ids: "requestId ?d = 42" "calls new_HttpInstrument = []"
    by (simp_all add: sample_send_headers_def new_HttpInstrument_def)
  have "calls (snd (onBeforeSendHeadersHandler sample_lib ?d
      1 (Some (1000, ?b)) (Fulfilled sample_tab) new_HttpInstrument)) =
        [ResolvedWithinTimeout 42 1000, LogError timeout_message] @ cs"
    using cs(1) ids by simp
  with cs(2,3) e show ?thesis by blast
qed

text \<open>
  The claim as it is stated fails when the tab lookup rejects, as
  \<open>browser.tabs.get\<close> does for a request that belongs to no tab (\<open>tabId = -1\<close>):
  the wait times out, the error is logged, and no record reaches the sink.
\<close>

theorem post_wait_times_out_counterexample:
  "http_method (sample_send_headers page_origin ''POST'' (- 1)
      [(''Content-Type'', ''multipart/form-data'')]) = ''POST'' \<and>
   \<not> is_ocsp_request (sample_send_headers page_origin ''POST'' (- 1)
      [(''Content-Type'', ''multipart/form-data'')]) \<and>
   \<not> resolvedWithinTimeout 1000 None
      (fst (getPendingRequest 42 new_HttpInstrument)) \<and>
   onBeforeSendHeadersHandler sample_lib
      (sample_send_headers page_origin ''POST'' (- 1)
         [(''Content-Type'', ''multipart/form-data'')])
      1 None (Rejected sample_error) new_HttpInstrument =
     (Threw,
      new_HttpInstrument
        \<lparr>pendingRequests := [42 \<mapsto> new_PendingRequest],
         calls := [ResolvedWithinTimeout 42 1000, LogError timeout_message, TabsGet (- 1)]\<rparr>) \<and>
   saved_records [ResolvedWithinTimeout 42 1000, LogError timeout_message, TabsGet (- 1)] = []"
proof -
  let ?d = "sample_send_headers page_origin ''POST'' (- 1)
      [(''Content-Type'', ''multipart/form-data'')]"
  have h1: "http_method ?d = ''POST''"
    by (simp add: sample_send_headers_def)
  have h2: "\<not> is_ocsp_request ?d"
    by code_simp
  have h3: "\<not> resolvedWithinTimeout 1000 None (fst (getPendingRequest 42 new_HttpInstrument))"
    by (simp add: resolvedWithinTimeout_def getPendingRequest_def new_HttpInstrument_def
        new_PendingRequest_def)
  have id: "requestId ?d = 42"
    by (simp add: sample_send_headers_def)
  have o: "parse_origin sample_lib (originUrl ?d) = Some (Some ''https://a.example'')"
      "parse_origin sample_lib (documentUrl ?d) = Some (Some ''https://a.example'')"
    by code_simp+
  have t: "tabId ?d = - 1"
    by (simp add: sample_send_headers_def)
  have run: "onBeforeSendHeadersHandler sample_lib ?d 1 None (Rejected sample_error)
      new_HttpInstrument =
     (Threw,
      new_HttpInstrument
        \<lparr>pendingRequests := [42 \<mapsto> new_PendingRequest],
         calls := [ResolvedWithinTimeout 42 1000, LogError timeout_message, TabsGet (- 1)]\<rparr>)"
    using h1 h2 h3 o t
    by (simp add: onBeforeSendHeadersHandler_unfold post_stage_timeout id finish_request_def
        emit_def getPendingRequest_def)
      (simp add: new_HttpInstrument_def)
  show ?thesis
    using h1 h2 h3 run by simp
qed

section \<open>The response handler\<close>

lemma getPendingResponse_calls: "calls (snd (getPendingResponse rid s)) = calls s"
  by (simp add: getPendingResponse_def split: option.splits)

lemma logWithResponseBody_caught:
  assumes "responseBodyListener (fst (getPendingResponse (requestId d) s)) = None \<and>
        err = undefined_TypeError L \<or>
      responseBodyListener (fst (getPendingResponse (requestId d) s)) \<noteq> None \<and>
        (body = Rejected err \<or> (\<exists>b. body = Fulfilled b \<and> hash = Rejected err))"
  shows "logWithResponseBody L d update body hash s =
     (Returned,
      (snd (getPendingResponse (requestId d) s))
        \<lparr>calls := calls s @
           [LogError (unable_message err),
            SaveRecord ''http_responses''
              (ResponseRec (update\<lparr>content_hash := Some ''<error>''\<rparr>))]\<rparr>)"
  using assms
  by (auto simp: logWithResponseBody_def logError_def saveRecord_def emit_def
      getPendingResponse_calls case_prod_beta Let_def)

lemma logWithResponseBody_fulfilled:
  assumes "responseBodyListener (fst (getPendingResponse (requestId d) s)) = Some l"
  shows "logWithResponseBody L d update (Fulfilled respBody) (Fulfilled contentHash) s =
     (Returned,
      (snd (getPendingResponse (requestId d) s))
        \<lparr>calls := calls s @
           [SaveContent (escapeString L (Some respBody)) (escapeString L (Some contentHash)),
            SaveRecord ''http_responses'' (ResponseRec update)]\<rparr>)"
  using assms
  by (simp add: logWithResponseBody_def saveContent_def saveRecord_def emit_def
      getPendingResponse_calls case_prod_beta Let_def)

lemma onCompletedHandler_capture:
  assumes "capture_required saveJavascript saveAllContent (resourceType d)"
  shows "onCompletedHandler L d crawlID saveJavascript saveAllContent body hash s =
     logWithResponseBody L d (response_update L d crawlID) body hash s"
  using assms by (auto simp: onCompletedHandler_def capture_required_def isJS_def Let_def)

text \<open>
  C3. When the capture policy requires the body and its retrieval fails (the buffer
  holds no listener, or \<open>getResponseBody()\<close> rejects, or \<open>getContentHash()\<close> rejects
  after the body has arrived), the handler logs one error and emits the response record
  once, with \<open>content_hash\<close> set to \<open><error>\<close>, and returns.
\<close>

theorem capture_failure_emits_error_record:
  assumes "capture_required saveJavascript saveAllContent (resourceType d)"
    and "responseBodyListener (fst (getPendingResponse (requestId d) s)) = None \<or>
      (\<exists>e. body = Rejected e) \<or> (\<exists>b e. body = Fulfilled b \<and> hash = Rejected e)"
  shows "\<exists>msg r.
     onCompletedHandler L d crawlID saveJavascript saveAllContent body hash s =
       (Returned,
        (snd (getPendingResponse (requestId d) s))
          \<lparr>calls := calls s @
             [LogError msg, SaveRecord ''http_responses'' (ResponseRec r)]\<rparr>) \<and>
     r = (response_update L d crawlID)\<lparr>content_hash := Some ''<error>''\<rparr> \<and>
     content_hash r = Some ''<error>''"
proof -
  have "\<exists>err. responseBodyListener (fst (getPendingResponse (requestId d) s)) = None \<and>
        err = undefined_TypeError L \<or>
      responseBodyListener (fst (getPendingResponse (requestId d) s)) \<noteq> None \<and>
        (body = Rejected err \<or> (\<exists>b. body = Fulfilled b \<and> hash = Rejected err))"
    using assms(2) by (cases "responseBodyListener (fst (getPendingResponse (requestId d) s))") auto
  then obtain err where "responseBodyListener (fst (getPendingResponse (requestId d) s)) = None \<and>
        err = undefined_TypeError L \<or>
      responseBodyListener (fst (getPendingResponse (requestId d) s)) \<noteq> None \<and>
        (body = Rejected err \<or> (\<exists>b. body = Fulfilled b \<and> hash = Rejected err))"
    by blast
  from logWithResponseBody_caught [OF this, of "response_update L d crawlID"]
  have "onCompletedHandler L d crawlID saveJavascript saveAllContent body hash s =
       (Returned,
        (snd (getPendingResponse (requestId d) s))
          \<lparr>calls := calls s @
             [LogError (unable_message err),
              SaveRecord ''http_responses''
                (ResponseRec
                   ((response_update L d crawlID)\<lparr>content_hash := Some ''<error>''\<rparr>))]\<rparr>)"
    by (simp add: onCompletedHandler_capture [OF assms(1)])
  then show ?thesis
    by (intro exI [of _ "unable_message err"]
        exI [of _ "(response_update L d crawlID)\<lparr>content_hash := Some ''<error>''\<rparr>"])
      simp
qed

theorem capture_failure_emits_error_record_witness:
  "onCompletedHandler sample_lib (sample_completed page_origin ''script'') 1 True False
      (Fulfilled ''hello'') (Fulfilled ''2cf24dba'') new_HttpInstrument =
     (Returned,
      new_HttpInstrument
        \<lparr>pendingResponses := [42 \<mapsto> new_PendingResponse],
         calls :=
           [LogError
              (''Unable to retrieve response body.Likely caused by a programming error. Error Message:'' @
               ''TypeErrorresponseBodyListener is undefined'' @ [CHR 0x0A] @
               ''logWithResponseBody''),
            SaveRecord ''http_responses''
              (ResponseRec
                 \<lparr>resp_crawl_id = 1, resp_request_id = 42, is_cached = 1,
                  resp_url = ''https://a.example/x.js'', resp_method = ''GET'',
                  response_status = 200, response_status_text = ''HTTP/1.1 200 OK'',
                  resp_time_stamp = ''2018-11-03T00:00:00.123Z'',
                  resp_headers = ''[[Content-Type,text/javascript]]'',
                  location = [], content_hash = Some ''<error>''\<rparr>)]\<rparr>)"
proof -
  let ?d = "sample_completed page_origin ''script''"
  have h1: "capture_required True False (resourceType ?d)"
    by (simp add: capture_required_def sample_completed_def)
  have h2: "responseBodyListener (fst (getPendingResponse (requestId ?d) new_HttpInstrument)) =
        None \<or>
      (\<exists>e. Fulfilled ''hello'' = Rejected e) \<or>
      (\<exists>b e. Fulfilled ''hello'' = Fulfilled b \<and> Fulfilled ''2cf24dba'' = Rejected e)"
    by (simp add: getPendingResponse_def new_HttpInstrument_def new_PendingResponse_def)
  have e: "calls (snd (onCompletedHandler sample_lib ?d 1 True False
      (Fulfilled ''hello'') (Fulfilled ''2cf24dba'') new_HttpInstrument)) =
           [LogError
              (''Unable to retrieve response body.Likely caused by a programming error. Error Message:'' @
               ''TypeErrorresponseBodyListener is undefined'' @ [CHR 0x0A] @
               ''logWithResponseBody''),
            SaveRecord ''http_responses''
              (ResponseRec
                 \<lparr>resp_crawl_id = 1, resp_request_id = 42, is_cached = 1,
                  resp_url = ''https://a.example/x.js'', resp_method = ''GET'',
                  response_status = 200, response_status_text = ''HTTP/1.1 200 OK'',
                  resp_time_stamp = ''2018-11-03T00:00:00.123Z'',
                  resp_headers = ''[[Content-Type,text/javascript]]'',
                  location = [], content_hash = Some ''<error>''\<rparr>)]"
    by code_simp
  have g: "snd (getPendingResponse (requestId ?d) new_HttpInstrument) =
      new_HttpInstrument\<lparr>pendingResponses := [42 \<mapsto> new_PendingResponse]\<rparr>"
    by (simp add: getPendingResponse_def new_HttpInstrument_def sample_completed_def)
  obtain msg r where mr:
    "onCompletedHandler sample_lib ?d 1 True False (Fulfilled ''hello'')
        (Fulfilled ''2cf24dba'') new_HttpInstrument =
       (Returned,
        (snd (getPendingResponse (requestId ?d) new_HttpInstrument))
          \<lparr>calls := calls new_HttpInstrument @
             [LogError msg, SaveRecord ''http_responses'' (ResponseRec r)]\<rparr>)"
    using capture_failure_emits_error_record [OF h1 h2, of sample_lib 1] by blast
  have c: "calls new_HttpInstrument = []"
    by (simp add: new_HttpInstrument_def)
  from mr e have "[LogError msg, SaveRecord ''http_responses'' (ResponseRec r)] =
           [LogError
              (''Unable to retrieve response body.Likely caused by a programming error. Error Message:'' @
               ''TypeErrorresponseBodyListener is undefined'' @ [CHR 0x0A] @
               ''logWithResponseBody''),
            SaveRecord ''http_responses''
              (ResponseRec
                 \<lparr>resp_crawl_id = 1, resp_request_id = 42, is_cached = 1,
                  resp_url = ''https://a.example/x.js'', resp_method = ''GET'',
                  response_status = 200, response_status_text = ''HTTP/1.1 200 OK'',
                  resp_time_stamp = ''2018-11-03T00:00:00.123Z'',
                  resp_headers = ''[[Content-Type,text/javascript]]'',
                  location = [], content_hash = Some ''<error>''\<rparr>)]"
    by (simp add: c)
  with mr g c show ?thesis by simp
qed

text \<open>
  On the path where the body and its hash arrive, the handler passes both to
  \<open>saveContent\<close> and then emits the record as \<open>onCompletedHandler\<close> built it. That
  record has no \<open>content_hash\<close>: only the \<open>catch\<close> block assigns the field.
\<close>

lemma capture_success_record:
  assumes "capture_required saveJavascript saveAllContent (resourceType d)"
    and "responseBodyListener (fst (getPendingResponse (requestId d) s)) = Some l"
  shows "onCompletedHandler L d crawlID saveJavascript saveAllContent
      (Fulfilled respBody) (Fulfilled contentHash) s =
     (Returned,
      (snd (getPendingResponse (requestId d) s))
        \<lparr>calls := calls s @
           [SaveContent (escapeString L (Some respBody)) (escapeString L (Some contentHash)),
            SaveRecord ''http_responses'' (ResponseRec (response_update L d crawlID))]\<rparr>) \<and>
     content_hash (response_update L d crawlID) = None"
  using logWithResponseBody_fulfilled [OF assms(2)]
  by (simp add: onCompletedHandler_capture [OF assms(1)] response_update_def case_prod_beta)

text \<open>
  C1. In capture-all mode, for a transaction whose pre-request event attached the
  listener and whose body \<open>hello\<close> and hash arrive, \<open>saveContent\<close> receives the body and
  the hash, and the response record that follows carries no \<open>content_hash\<close> at all,
  so it does not reference the hash that was stored.
\<close>

theorem response_record_lacks_content_hash:
  "calls (snd (onCompletedHandler sample_lib (sample_completed page_origin ''image'') 1
      False True (Fulfilled ''hello'')
      (Fulfilled ''2cf24dba5fb0a30e26e83b2ac5b9e29e1b161e5c1fa7425e73043362938b9824'')
      (snd (onBeforeRequestListener False True (sample_before_request page_origin ''image'')
         new_HttpInstrument)))) =
     [NewResponseBodyListener 42,
      SaveContent ''hello''
        ''2cf24dba5fb0a30e26e83b2ac5b9e29e1b161e5c1fa7425e73043362938b9824'',
      SaveRecord ''http_responses''
        (ResponseRec
           \<lparr>resp_crawl_id = 1, resp_request_id = 42, is_cached = 1,
            resp_url = ''https://a.example/x.js'', resp_method = ''GET'',
            response_status = 200, response_status_text = ''HTTP/1.1 200 OK'',
            resp_time_stamp = ''2018-11-03T00:00:00.123Z'',
            resp_headers = ''[[Content-Type,text/javascript]]'',
            location = [], content_hash = None\<rparr>)]"
  by code_simp

section \<open>Attaching the body listener\<close>

text \<open>
  C4. For a pre-request event that does not stem from the extension, the listener
  constructs and attaches a body listener exactly when the capture policy requires it:
  always in capture-all mode, for the resource type \<open>script\<close> only in capture-scripts
  mode, never when both options are off. When it attaches none, the buffer keeps what it
  held (nothing, for a new transaction). With both options off the response handler
  emits the record at once, with no \<open>content_hash\<close> and no other call.
\<close>

theorem body_listener_follows_policy:
  assumes "\<not> requestStemsFromExtension d"
  shows "calls (snd (onBeforeRequestListener saveJavascript saveAllContent d s)) =
      calls s @
      (if capture_required saveJavascript saveAllContent (resourceType d)
       then [NewResponseBodyListener (requestId d)] else []) \<and>
    map_option responseBodyListener
      (pendingResponses (snd (onBeforeRequestListener saveJavascript saveAllContent d s))
         (requestId d)) =
      Some (if capture_required saveJavascript saveAllContent (resourceType d)
            then Some (ResponseBodyListener (requestId d))
            else responseBodyListener (fst (getPendingResponse (requestId d) s))) \<and>
    capture_required saveJavascript True (resourceType d) \<and>
    capture_required True False (resourceType d) = (resourceType d = ''script'') \<and>
    \<not> capture_required False False (resourceType d) \<and>
    onCompletedHandler L dc crawlID False False body hash s' =
      (Returned,
       s'\<lparr>calls := calls s' @
          [SaveRecord ''http_responses'' (ResponseRec (response_update L dc crawlID))]\<rparr>) \<and>
    content_hash (response_update L dc crawlID) = None"
proof (intro conjI)
  show "calls (snd (onBeforeRequestListener saveJavascript saveAllContent d s)) =
      calls s @
      (if capture_required saveJavascript saveAllContent (resourceType d)
       then [NewResponseBodyListener (requestId d)] else [])"
    using assms
    by (simp add: onBeforeRequestListener_def capture_required_def isJS_def
        getPendingRequest_def getPendingResponse_def
        req_resolveBeforeRequestEventDetails_def resp_resolveBeforeRequestEventDetails_def
        addResponseResponseBodyListener_def modify_pendingRequest_def
        modify_pendingResponse_def emit_def case_prod_beta Let_def split: option.splits)
next
  show "map_option responseBodyListener
      (pendingResponses (snd (onBeforeRequestListener saveJavascript saveAllContent d s))
         (requestId d)) =
      Some (if capture_required saveJavascript saveAllContent (resourceType d)
            then Some (ResponseBodyListener (requestId d))
            else responseBodyListener (fst (getPendingResponse (requestId d) s)))"
    using assms
    by (simp add: onBeforeRequestListener_def capture_required_def isJS_def
        getPendingRequest_def getPendingResponse_def
        req_resolveBeforeRequestEventDetails_def resp_resolveBeforeRequestEventDetails_def
        addResponseResponseBodyListener_def modify_pendingRequest_def
        modify_pendingResponse_def emit_def case_prod_beta Let_def new_PendingResponse_def
        split: option.splits)
next
  show "onCompletedHandler L dc crawlID False False body hash s' =
      (Returned,
       s'\<lparr>calls := calls s' @
          [SaveRecord ''http_responses'' (ResponseRec (response_update L dc crawlID))]\<rparr>)"
    by (simp add: onCompletedHandler_def saveRecord_def emit_def)
next
  show "content_hash (response_update L dc crawlID) = None"
    by (simp add: response_update_def case_prod_beta)
qed (simp_all add: capture_required_def)

theorem body_listener_follows_policy_witness:
  "calls (snd (onBeforeRequestListener True False (sample_before_request page_origin ''script'')
      new_HttpInstrument)) = [NewResponseBodyListener 42] \<and>
   calls (snd (onBeforeRequestListener True False (sample_before_request page_origin ''image'')
      new_HttpInstrument)) = [] \<and>
   map_option responseBodyListener
     (pendingResponses (snd (onBeforeRequestListener True False
        (sample_before_request page_origin ''image'') new_HttpInstrument)) 42) = Some None \<and>
   calls (snd (onBeforeRequestListener False True (sample_before_request page_origin ''image'')
      new_HttpInstrument)) = [NewResponseBodyListener 42] \<and>
   calls (snd (onBeforeRequestListener False False
      (sample_before_request page_origin ''script'') new_HttpInstrument)) = []"
proof -
  have n: "\<not> requestStemsFromExtension (sample_before_request page_origin rt)" for rt
    by (simp add: requestStemsFromExtension_def sample_before_request_def page_origin_def
        indexOf_def)
  have f: "resourceType (sample_before_request page_origin rt) = rt"
      "requestId (sample_before_request page_origin rt) = 42" for rt
    by (simp_all add: sample_before_request_def)
  have g: "responseBodyListener (fst (getPendingResponse 42 new_HttpInstrument)) = None"
      "calls new_HttpInstrument = []"
    by (simp_all add: getPendingResponse_def new_HttpInstrument_def new_PendingResponse_def)
  show ?thesis
    using body_listener_follows_policy [OF n [of "''script''"], of True False new_HttpInstrument]
      body_listener_follows_policy [OF n [of "''image''"], of True False new_HttpInstrument]
      body_listener_follows_policy [OF n [of "''image''"], of False True new_HttpInstrument]
      body_listener_follows_policy [OF n [of "''script''"], of False False new_HttpInstrument]
    by (simp add: f g capture_required_def)
qed

text \<open>
  As stated for every pre-request event, the claim fails on the extension's own
  traffic: in capture-all mode the listener drops such an event before it reaches the
  policy, and attaches nothing.
\<close>

theorem body_listener_follows_policy_counterexample:
  "capture_required False True
      (resourceType (sample_before_request extension_origin ''script'')) \<and>
   snd (onBeforeRequestListener False True (sample_before_request extension_origin ''script'')
      new_HttpInstrument) = new_HttpInstrument \<and>
   constructed_listeners (calls new_HttpInstrument) = [] \<and>
   pendingResponses new_HttpInstrument 42 = None"
proof -
  have "requestStemsFromExtension (sample_before_request extension_origin ''script'')"
    by (simp add: requestStemsFromExtension_def sample_before_request_def
        extension_origin_def indexOf_def)
  then show ?thesis
    by (simp add: onBeforeRequestListener_def capture_required_def new_HttpInstrument_def)
qed

end
